theory Spec2Isabelle
  imports Main "HOL-Library.Word"
begin

section \<open>The predictor component reconciler of kfserving (v1beta1)\<close>

text \<open>
  A shallow embedding of \<^verbatim>\<open>pkg/controller/v1beta1/inferenceservice/components/predictor.go\<close>
  and of the multi-model \<^verbatim>\<open>ConfigMapReconciler\<close>. Go structs are records, pointers that may
  be nil are options, slices are lists (a nil slice and an empty slice are both \<open>[]\<close>, as
  \<^verbatim>\<open>len\<close> cannot tell them apart), a run-time panic is the left injection of a sum and a
  returned \<^verbatim>\<open>error\<close> is an \<open>error option\<close>. A Go map that is only read is a partial
  function (a nil map reads as the empty one); a map that is written to is an option of a
  partial function, \<open>None\<close> being the nil map, on which an assignment panics.
  The pointer parameters \<^verbatim>\<open>isvc\<close>, \<^verbatim>\<open>desired\<close> and \<^verbatim>\<open>trainedModel\<close> are taken to be non-nil.
\<close>

subsection \<open>Errors\<close>

datatype panic = NilPointerDereference | IndexOutOfRange | AssignmentToEntryInNilMap

datatype error = Error string

subsection \<open>Kubernetes objects\<close>

text \<open>
  Only the fields this code reads or writes, and a few neighbours that show what is left
  alone, are kept. Field names that occur in several Go structs carry the struct's name.
\<close>

record object_meta =
  Name :: string
  Namespace :: string
  Labels :: "string \<rightharpoonup> string"
  Annotations :: "string \<rightharpoonup> string"

record container_port =
  PortName :: string
  HostPort :: "32 word"
  ContainerPort :: "32 word"
  Protocol :: string
  HostIP :: string

record container =
  ContainerName :: string
  Image :: string
  Args :: "string list"
  Ports :: "container_port list"

record volume =
  VolumeName :: string

record pod_spec =
  Volumes :: "volume list"
  InitContainers :: "container list"
  Containers :: "container list"
  ServiceAccountName :: string

record pod_template_spec =
  Template_ObjectMeta :: object_meta
  Template_Spec :: pod_spec

record custom_predictor =
  PodTemplateSpec :: pod_template_spec

record logger_spec =
  URL :: "string option"
  Mode :: string

record batcher =
  MaxBatchSize :: "int option"
  MaxLatency :: "int option"
  Timeout :: "int option"

text \<open>
  \<open>'b\<close> stands for the built-in runtime variants of \<^verbatim>\<open>PredictorSpec\<close> and \<open>'x\<close> for its
  \<^verbatim>\<open>ComponentExtensionSpec\<close>; both types are declared outside the file and are only
  handed on to collaborators. \<open>'st\<close> is the per-component status record.
\<close>

record ('b, 'x) predictor_spec =
  Builtin :: 'b
  Custom :: "custom_predictor option"
  ComponentExtensionSpec :: 'x
  Logger :: "logger_spec option"
  Batcher :: "batcher option"

record ('b, 'x) inference_service_spec =
  Predictor :: "('b, 'x) predictor_spec"

record 'st inference_service_status =
  Components :: "string \<rightharpoonup> 'st"

record ('b, 'x, 'st) inference_service =
  ObjectMeta :: object_meta
  Spec :: "('b, 'x) inference_service_spec"
  Status :: "'st inference_service_status"

subsection \<open>Constants of other packages\<close>

text \<open>
  The values of \<^verbatim>\<open>pkg/constants\<close> and of \<^verbatim>\<open>v1beta1.PredictorComponent\<close> are not part of the
  file; they are a parameter of every function that uses them.
\<close>

record constants =
  ServiceAnnotationDisallowedList :: "string list"
  StorageInitializerSourceUriInternalAnnotationKey :: string
  LoggerInternalAnnotationKey :: string
  LoggerSinkUrlInternalAnnotationKey :: string
  LoggerModeInternalAnnotationKey :: string
  BatcherInternalAnnotationKey :: string
  BatcherMaxBatchSizeInternalAnnotationKey :: string
  BatcherMaxLatencyInternalAnnotationKey :: string
  BatcherTimeoutInternalAnnotationKey :: string
  InferenceServiceDefaultLoggerPort :: string
  InferenceServiceDefaultBatcherPort :: string
  InferenceServicePodLabelKey :: string
  KServiceComponentLabel :: string
  PredictorComponent :: string

subsection \<open>strconv\<close>

text \<open>
  \<^verbatim>\<open>strconv.Itoa\<close>: the decimal digits of an integer, most significant first, with a
  leading minus sign for a negative one.
\<close>

definition digit_char :: "nat \<Rightarrow> char" where
  "digit_char d = char_of (48 + d)"

function digits :: "nat \<Rightarrow> string" where
  "digits n = (if n < 10 then [digit_char n] else digits (n div 10) @ [digit_char (n mod 10)])"
  by pat_completeness auto
termination
  by (relation "measure (\<lambda>n. n)") auto

declare digits.simps [simp del]

definition Itoa :: "int \<Rightarrow> string" where
  "Itoa i = (if i < 0 then CHR ''-'' # digits (nat (- i)) else digits (nat i))"

text \<open>
  \<^verbatim>\<open>strconv.Atoi\<close> on a 64-bit platform, as the value it returns beside its error (the
  callers below discard the error): an optional sign and then decimal digits only; 0 on a
  syntax error; the nearest bound of int64 when the number is out of range. The digits are
  read from the left into a uint64; a character that is not a digit is a syntax error, and a
  digit with which the number no longer fits the uint64 ends the reading with a range error,
  whatever follows it.
\<close>

definition is_digit :: "char \<Rightarrow> bool" where
  "is_digit ch = (48 \<le> (of_char ch :: nat) \<and> (of_char ch :: nat) \<le> 57)"

fun parse_digits :: "int \<Rightarrow> string \<Rightarrow> int option" where
  "parse_digits n [] = Some n"
| "parse_digits n (ch # s) =
     (if \<not> is_digit ch then None
      else if n * 10 + (of_char ch - 48) > 2 ^ 64 - 1 then Some (2 ^ 64 - 1)
      else parse_digits (n * 10 + (of_char ch - 48)) s)"

definition Atoi :: "string \<Rightarrow> int" where
  "Atoi s =
     (case s of
        [] \<Rightarrow> 0
      | ch # rest \<Rightarrow>
          (let body = (if ch = CHR ''-'' \<or> ch = CHR ''+'' then rest else s) in
           if body = [] then 0
           else (case parse_digits 0 body of
                   None \<Rightarrow> 0
                 | Some n \<Rightarrow>
                     (if ch = CHR ''-'' then max (- (2 ^ 63)) (- n)
                      else min (2 ^ 63 - 1) n))))"

subsection \<open>Annotation injection\<close>

text \<open>
  The annotation map that these functions write to: \<open>None\<close> is the nil map. Reading a nil map
  gives what reading an empty map gives; \<^verbatim>\<open>m[k] = v\<close> panics on a nil map and stores the entry
  otherwise.
\<close>

definition map_entries :: "(string \<rightharpoonup> string) option \<Rightarrow> (string \<rightharpoonup> string)" where
  "map_entries m = (case m of None \<Rightarrow> Map.empty | Some a \<Rightarrow> a)"

definition map_assign ::
  "(string \<rightharpoonup> string) option \<Rightarrow> string \<Rightarrow> string \<Rightarrow> panic + (string \<rightharpoonup> string) option" where
  "map_assign m k v =
     (case m of None \<Rightarrow> Inl AssignmentToEntryInNilMap | Some a \<Rightarrow> Inr (Some (a(k \<mapsto> v))))"

text \<open>
  \<^verbatim>\<open>addLoggerAnnotations\<close> and \<^verbatim>\<open>addBatcherAnnotations\<close> write into the map they are given;
  the model returns a panic, or the flag together with the map after the call.
\<close>

definition addLoggerAnnotations ::
  "constants \<Rightarrow> logger_spec option \<Rightarrow> (string \<rightharpoonup> string) option
     \<Rightarrow> panic + bool \<times> (string \<rightharpoonup> string) option" where
  "addLoggerAnnotations K logger annotations =
     (case logger of
        Some l \<Rightarrow>
          (case map_assign annotations (LoggerInternalAnnotationKey K) ''true'' of
             Inl e \<Rightarrow> Inl e
           | Inr a1 \<Rightarrow>
               (case (case URL l of
                        Some u \<Rightarrow> map_assign a1 (LoggerSinkUrlInternalAnnotationKey K) u
                      | None \<Rightarrow> Inr a1) of
                  Inl e \<Rightarrow> Inl e
                | Inr a2 \<Rightarrow>
                    (case map_assign a2 (LoggerModeInternalAnnotationKey K) (Mode l) of
                       Inl e \<Rightarrow> Inl e
                     | Inr a3 \<Rightarrow> Inr (True, a3))))
      | None \<Rightarrow> Inr (False, annotations))"

definition addBatcherAnnotations ::
  "constants \<Rightarrow> batcher option \<Rightarrow> (string \<rightharpoonup> string) option
     \<Rightarrow> panic + bool \<times> (string \<rightharpoonup> string) option" where
  "addBatcherAnnotations K b annotations =
     (case b of
        Some bt \<Rightarrow>
          (case map_assign annotations (BatcherInternalAnnotationKey K) ''true'' of
             Inl e \<Rightarrow> Inl e
           | Inr a1 \<Rightarrow>
               (case (case MaxBatchSize bt of
                        Some n \<Rightarrow>
                          map_assign a1 (BatcherMaxBatchSizeInternalAnnotationKey K) (Itoa n)
                      | None \<Rightarrow> Inr a1) of
                  Inl e \<Rightarrow> Inl e
                | Inr a2 \<Rightarrow>
                    (case (case MaxLatency bt of
                             Some n \<Rightarrow>
                               map_assign a2 (BatcherMaxLatencyInternalAnnotationKey K) (Itoa n)
                           | None \<Rightarrow> Inr a2) of
                       Inl e \<Rightarrow> Inl e
                     | Inr a3 \<Rightarrow>
                         (case (case Timeout bt of
                                  Some n \<Rightarrow>
                                    map_assign a3 (BatcherTimeoutInternalAnnotationKey K) (Itoa n)
                                | None \<Rightarrow> Inr a3) of
                            Inl e \<Rightarrow> Inl e
                          | Inr a4 \<Rightarrow> Inr (True, a4)))))
      | None \<Rightarrow> Inr (False, annotations))"

subsection \<open>Sidecar ports\<close>

text \<open>
  The port functions take a pointer and do nothing on nil; the model maps the pointer's
  target before the call to its target after the call. \<^verbatim>\<open>int32(port)\<close> keeps the low 32
  bits, which \<open>word_of_int\<close> does. The fields the composite literal does not name are zero.
\<close>

definition port_entry :: "32 word \<Rightarrow> container_port" where
  "port_entry p =
     \<lparr>PortName = [], HostPort = 0, ContainerPort = p, Protocol = [], HostIP = []\<rparr>"

definition addLoggerContainerPort :: "constants \<Rightarrow> container option \<Rightarrow> container option" where
  "addLoggerContainerPort K cp =
     (case cp of
        None \<Rightarrow> None
      | Some c \<Rightarrow>
          (if Ports c = [] \<or> length (Ports c) = 0
           then (let port = Atoi (InferenceServiceDefaultLoggerPort K)
                 in Some (c\<lparr>Ports := [port_entry (word_of_int port)]\<rparr>))
           else Some c))"

definition addBatcherContainerPort :: "constants \<Rightarrow> container option \<Rightarrow> container option" where
  "addBatcherContainerPort K cp =
     (case cp of
        None \<Rightarrow> None
      | Some c \<Rightarrow>
          (if Ports c = [] \<or> length (Ports c) = 0
           then (let port = Atoi (InferenceServiceDefaultBatcherPort K)
                 in Some (c\<lparr>Ports := [port_entry (word_of_int port)]\<rparr>))
           else Some c))"

subsection \<open>Helpers of other packages\<close>

text \<open>
  Modelled from the spec: \<^verbatim>\<open>utils.Filter\<close> is not in the file. The spec describes its
  use as: given the parent's raw annotation map and a disallow-list of annotation keys,
  produce a filtered copy retaining only keys not present in the disallow-list. \<open>Filter\<close>
  keeps the entries whose key satisfies the predicate it is given; the value here is the
  content of the copy, which is a new map and so not nil.
\<close>

definition Filter :: "(string \<rightharpoonup> string) \<Rightarrow> (string \<Rightarrow> bool) \<Rightarrow> (string \<rightharpoonup> string)" where
  "Filter origin predicate = (\<lambda>k. if predicate k then origin k else None)"

text \<open>
  Modelled from the spec: \<^verbatim>\<open>utils.Includes\<close> is not in the file. In the spec's words a key is
  kept when it is not present in the disallow-list: \<open>Includes\<close> tells whether a value occurs
  in a slice.
\<close>

definition Includes :: "string list \<Rightarrow> string \<Rightarrow> bool" where
  "Includes sl v = (v \<in> set sl)"

text \<open>
  Modelled from the spec: \<^verbatim>\<open>InferenceServiceStatus.PropagateStatus\<close> is not in the file. The
  spec: on success, overwrite the parent's per-component status entry with the delegate's
  returned status snapshot.
\<close>

definition PropagateStatus ::
  "'st inference_service_status \<Rightarrow> string \<Rightarrow> 'st \<Rightarrow> 'st inference_service_status" where
  "PropagateStatus ss component status = ss\<lparr>Components := (Components ss)(component \<mapsto> status)\<rparr>"

subsection \<open>The reconciler and its collaborators\<close>

text \<open>
  What \<^verbatim>\<open>GetImplementation\<close> returns: an implementation of the component, of which this
  code calls \<^verbatim>\<open>GetStorageUri\<close> (a string pointer) and \<^verbatim>\<open>GetContainer\<close> (a container pointer).
\<close>

record ('x, 'cfg) component_implementation =
  GetStorageUri :: "string option"
  GetContainer :: "object_meta \<Rightarrow> 'x \<Rightarrow> 'cfg \<Rightarrow> container option"

text \<open>
  The struct \<^verbatim>\<open>Predictor\<close>, with the code it calls and whose source is elsewhere as
  further fields: the methods of \<^verbatim>\<open>PredictorSpec\<close>, \<^verbatim>\<open>utils.Union\<close>, the knative reconciler
  (\<open>'r\<close>) and \<^verbatim>\<open>controllerutil.SetControllerReference\<close>. The client and the scheme are
  inside these functions. \<open>'w\<close> is the state of the cluster, which only the delegate's
  \<^verbatim>\<open>Reconcile\<close> reads and changes. The collaborators are taken to read the parent without
  writing to it. Logging is left out.
\<close>

record ('b, 'x, 'cfg, 'r, 'w, 'st) predictor =
  inferenceServiceConfig :: 'cfg
  GetImplementation :: "('b, 'x) predictor_spec \<Rightarrow> ('x, 'cfg) component_implementation"
  GetExtensions :: "('b, 'x) predictor_spec \<Rightarrow> 'x"
  Union :: "(string \<rightharpoonup> string) \<Rightarrow> (string \<rightharpoonup> string) \<Rightarrow> (string \<rightharpoonup> string)"
  NewKsvcReconciler :: "object_meta \<Rightarrow> 'x \<Rightarrow> pod_spec \<Rightarrow> 'st option \<Rightarrow> 'r"
  SetControllerReference :: "('b, 'x, 'st) inference_service \<Rightarrow> 'r \<Rightarrow> 'r \<times> error option"
  KsvcReconcile :: "'w \<Rightarrow> 'r \<Rightarrow> 'w \<times> 'st \<times> error option"

subsection \<open>Reading and writing the nested fields\<close>

definition zero_object_meta :: object_meta where
  "zero_object_meta = \<lparr>Name = [], Namespace = [], Labels = Map.empty, Annotations = Map.empty\<rparr>"

definition custom_Containers :: "custom_predictor \<Rightarrow> container list" where
  "custom_Containers cu = Containers (Template_Spec (PodTemplateSpec cu))"

definition set_custom_Containers :: "custom_predictor \<Rightarrow> container list \<Rightarrow> custom_predictor" where
  "set_custom_Containers cu cs =
     cu\<lparr>PodTemplateSpec := (PodTemplateSpec cu)
          \<lparr>Template_Spec := (Template_Spec (PodTemplateSpec cu))\<lparr>Containers := cs\<rparr>\<rparr>\<rparr>"

definition set_Custom ::
  "('b, 'x, 'st) inference_service \<Rightarrow> custom_predictor option \<Rightarrow> ('b, 'x, 'st) inference_service" where
  "set_Custom isvc cu =
     isvc\<lparr>Spec := (Spec isvc)\<lparr>Predictor := (Predictor (Spec isvc))\<lparr>Custom := cu\<rparr>\<rparr>\<rparr>"

text \<open>
  \<^verbatim>\<open>f(&cs[0])\<close>: the index expression panics on an empty slice; otherwise the first element
  is what \<open>f\<close> leaves behind its pointer.
\<close>

definition on_first ::
  "(container option \<Rightarrow> container option) \<Rightarrow> container list \<Rightarrow> panic + container list" where
  "on_first f cs =
     (case cs of
        [] \<Rightarrow> Inl IndexOutOfRange
      | c # rest \<Rightarrow> (case f (Some c) of Some c' \<Rightarrow> Inr (c' # rest) | None \<Rightarrow> Inr (c # rest)))"

subsection \<open>Predictor.Reconcile\<close>

text \<open>
  Lines 56 to 66: the implementation is resolved, the parent's annotations are filtered, and
  the storage, logger and batcher annotations are written over the filtered copy. The result
  is a panic or \<^verbatim>\<open>(hasInferenceLogging, hasInferenceBatcher, annotations)\<close>.
\<close>

definition Reconcile_annotations ::
  "('b, 'x, 'cfg, 'r, 'w, 'st) predictor \<Rightarrow> constants \<Rightarrow> ('b, 'x, 'st) inference_service
     \<Rightarrow> panic + bool \<times> bool \<times> (string \<rightharpoonup> string) option" where
  "Reconcile_annotations p K isvc =
     (let predictor = GetImplementation p (Predictor (Spec isvc));
          annotations = Some (Filter (Annotations (ObjectMeta isvc))
                                (\<lambda>key. \<not> Includes (ServiceAnnotationDisallowedList K) key))
      in case (case GetStorageUri predictor of
                 Some sourceURI \<Rightarrow>
                   map_assign annotations (StorageInitializerSourceUriInternalAnnotationKey K)
                     sourceURI
               | None \<Rightarrow> Inr annotations) of
           Inl e \<Rightarrow> Inl e
         | Inr annotations \<Rightarrow>
             (case addLoggerAnnotations K (Logger (Predictor (Spec isvc))) annotations of
                Inl e \<Rightarrow> Inl e
              | Inr (hasInferenceLogging, annotations) \<Rightarrow>
                  (case addBatcherAnnotations K (Batcher (Predictor (Spec isvc))) annotations of
                     Inl e \<Rightarrow> Inl e
                   | Inr (hasInferenceBatcher, annotations) \<Rightarrow>
                       Inr (hasInferenceLogging, hasInferenceBatcher, annotations))))"

text \<open>Lines 68 to 76: the identity of the child object.\<close>

definition Reconcile_objectMeta ::
  "('b, 'x, 'cfg, 'r, 'w, 'st) predictor \<Rightarrow> constants \<Rightarrow> ('b, 'x, 'st) inference_service
     \<Rightarrow> (string \<rightharpoonup> string) \<Rightarrow> object_meta" where
  "Reconcile_objectMeta p K isvc annotations =
     \<lparr>Name = Name (ObjectMeta isvc) @ ''-'' @ PredictorComponent K,
      Namespace = Namespace (ObjectMeta isvc),
      Labels = Union p (Labels (ObjectMeta isvc))
                 (Map.empty(InferenceServicePodLabelKey K \<mapsto> Name (ObjectMeta isvc),
                            KServiceComponentLabel K \<mapsto> PredictorComponent K)),
      Annotations = annotations\<rparr>"

text \<open>
  Lines 77 to 91: the container is built and installed. \<^verbatim>\<open>*container\<close> panics on a nil
  pointer, and it is evaluated before the assignment to \<^verbatim>\<open>Containers[0]\<close> is carried out,
  which panics on an empty slice. The result is the value of \<^verbatim>\<open>isvc.Spec.Predictor.Custom\<close>.
\<close>

definition Reconcile_container ::
  "('b, 'x, 'cfg, 'r, 'w, 'st) predictor \<Rightarrow> ('b, 'x, 'st) inference_service
     \<Rightarrow> panic + custom_predictor" where
  "Reconcile_container p isvc =
     (let predictor = GetImplementation p (Predictor (Spec isvc)) in
      case Custom (Predictor (Spec isvc)) of
        None \<Rightarrow>
          (case GetContainer predictor (ObjectMeta isvc) (GetExtensions p (Predictor (Spec isvc)))
                  (inferenceServiceConfig p) of
             None \<Rightarrow> Inl NilPointerDereference
           | Some container \<Rightarrow>
               Inr \<lparr>PodTemplateSpec =
                      \<lparr>Template_ObjectMeta = zero_object_meta,
                       Template_Spec =
                         \<lparr>Volumes = [], InitContainers = [], Containers = [container],
                          ServiceAccountName = []\<rparr>\<rparr>\<rparr>)
      | Some cu \<Rightarrow>
          (case GetContainer predictor (ObjectMeta isvc) (GetExtensions p (Predictor (Spec isvc)))
                  (inferenceServiceConfig p) of
             None \<Rightarrow> Inl NilPointerDereference
           | Some container \<Rightarrow>
               (case custom_Containers cu of
                  [] \<Rightarrow> Inl IndexOutOfRange
                | c0 # rest \<Rightarrow> Inr (set_custom_Containers cu (container # rest)))))"

text \<open>Lines 94 to 100: the port patches, each under its flag, on the first container.\<close>

definition Reconcile_ports ::
  "constants \<Rightarrow> bool \<Rightarrow> bool \<Rightarrow> custom_predictor \<Rightarrow> panic + custom_predictor" where
  "Reconcile_ports K hasInferenceLogging hasInferenceBatcher cu =
     (case (if hasInferenceLogging
            then on_first (addLoggerContainerPort K) (custom_Containers cu)
            else Inr (custom_Containers cu)) of
        Inl e \<Rightarrow> Inl e
      | Inr cs1 \<Rightarrow>
          (case (if hasInferenceBatcher
                 then on_first (addBatcherContainerPort K) cs1
                 else Inr cs1) of
             Inl e \<Rightarrow> Inl e
           | Inr cs2 \<Rightarrow> Inr (set_custom_Containers cu cs2)))"

text \<open>
  Lines 56 to 100 together: the desired object metadata and the parent as the synthesis
  leaves it.
\<close>

definition Reconcile_synthesis ::
  "('b, 'x, 'cfg, 'r, 'w, 'st) predictor \<Rightarrow> constants \<Rightarrow> ('b, 'x, 'st) inference_service
     \<Rightarrow> panic + (object_meta \<times> ('b, 'x, 'st) inference_service)" where
  "Reconcile_synthesis p K isvc =
     (case Reconcile_annotations p K isvc of
        Inl e \<Rightarrow> Inl e
      | Inr (hasInferenceLogging, hasInferenceBatcher, annotations) \<Rightarrow>
          (let objectMeta = Reconcile_objectMeta p K isvc (map_entries annotations) in
           case Reconcile_container p isvc of
             Inl e \<Rightarrow> Inl e
           | Inr cu \<Rightarrow>
               (case Reconcile_ports K hasInferenceLogging hasInferenceBatcher cu of
                  Inl e \<Rightarrow> Inl e
                | Inr cu' \<Rightarrow> Inr (objectMeta, set_Custom isvc (Some cu')))))"

text \<open>
  The whole of \<^verbatim>\<open>Reconcile\<close>: a panic, or the cluster, the parent and the returned error.
  The parent is changed in place, so it is part of the result on an error return too.
\<close>

definition Reconcile ::
  "('b, 'x, 'cfg, 'r, 'w, 'st) predictor \<Rightarrow> constants \<Rightarrow> 'w \<Rightarrow> ('b, 'x, 'st) inference_service
     \<Rightarrow> panic + ('w \<times> ('b, 'x, 'st) inference_service \<times> error option)" where
  "Reconcile p K w isvc =
     (case Reconcile_synthesis p K isvc of
        Inl e \<Rightarrow> Inl e
      | Inr (objectMeta, isvc1) \<Rightarrow>
          (case Custom (Predictor (Spec isvc1)) of
             None \<Rightarrow> Inl NilPointerDereference
           | Some cu \<Rightarrow>
               (let r = NewKsvcReconciler p objectMeta
                          (ComponentExtensionSpec (Predictor (Spec isvc1)))
                          (Template_Spec (PodTemplateSpec cu))
                          (Components (Status isvc1) (PredictorComponent K))
                in case SetControllerReference p isvc1 r of
                     (r1, Some err) \<Rightarrow> Inr (w, isvc1, Some err)
                   | (r1, None) \<Rightarrow>
                       (case KsvcReconcile p w r1 of
                          (w1, status, Some err) \<Rightarrow> Inr (w1, isvc1, Some err)
                        | (w1, status, None) \<Rightarrow>
                            Inr (w1,
                                 isvc1\<lparr>Status := PropagateStatus (Status isvc1)
                                                    (PredictorComponent K) status\<rparr>,
                                 None)))))"

subsection \<open>ConfigMapReconciler.Reconcile\<close>

record config_map =
  ConfigMap_ObjectMeta :: object_meta
  Data :: "string \<rightharpoonup> string"

record trained_model =
  TrainedModel_ObjectMeta :: object_meta
  DeletionTimestamp :: "string option"

text \<open>
  The reconciler holds a client, whose \<^verbatim>\<open>Create\<close> acts on the cluster and returns an error or
  nil. Both branches on the deletion timestamp are empty in the source.
\<close>

record 'w config_map_reconciler =
  client_Create :: "'w \<Rightarrow> config_map \<Rightarrow> 'w \<times> error option"

definition ConfigMapReconciler_Reconcile ::
  "'w config_map_reconciler \<Rightarrow> 'w \<Rightarrow> config_map \<Rightarrow> trained_model \<Rightarrow> 'w \<times> error option" where
  "ConfigMapReconciler_Reconcile c w desired trainedModel =
     (let w0 = (if DeletionTimestamp trainedModel \<noteq> None then w else w) in
      case client_Create c w0 desired of
        (w1, Some err) \<Rightarrow> (w1, Some err)
      | (w1, None) \<Rightarrow> (w1, None))"

subsection \<open>Derived notions used in the statements\<close>

text \<open>
  The call \<^verbatim>\<open>predictor.GetContainer(isvc.ObjectMeta, isvc.Spec.Predictor.GetExtensions(),
  p.inferenceServiceConfig)\<close> of lines 78 and 89.
\<close>

abbreviation built_container ::
  "('b, 'x, 'cfg, 'r, 'w, 'st) predictor \<Rightarrow> ('b, 'x, 'st) inference_service \<Rightarrow> container option" where
  "built_container p isvc \<equiv>
     GetContainer (GetImplementation p (Predictor (Spec isvc))) (ObjectMeta isvc)
       (GetExtensions p (Predictor (Spec isvc))) (inferenceServiceConfig p)"

text \<open>
  The two conditional port patches of lines 94 to 100, as one function on the container
  they are applied to.
\<close>

definition patch_ports :: "constants \<Rightarrow> bool \<Rightarrow> bool \<Rightarrow> container \<Rightarrow> container" where
  "patch_ports K hasInferenceLogging hasInferenceBatcher c =
     (let c1 = (if hasInferenceLogging
                then (case addLoggerContainerPort K (Some c) of Some c' \<Rightarrow> c' | None \<Rightarrow> c)
                else c)
      in if hasInferenceBatcher
         then (case addBatcherContainerPort K (Some c1) of Some c' \<Rightarrow> c' | None \<Rightarrow> c1)
         else c1)"

text \<open>
  The content of a map that is not nil after \<^verbatim>\<open>addLoggerAnnotations\<close> and after
  \<^verbatim>\<open>addBatcherAnnotations\<close>, and the content of the annotation map that lines 57 to 66 build.
\<close>

definition logger_writes ::
  "constants \<Rightarrow> logger_spec option \<Rightarrow> (string \<rightharpoonup> string) \<Rightarrow> (string \<rightharpoonup> string)" where
  "logger_writes K logger a =
     (case addLoggerAnnotations K logger (Some a) of
        Inr (flag, m) \<Rightarrow> map_entries m
      | Inl e \<Rightarrow> a)"

definition batcher_writes ::
  "constants \<Rightarrow> batcher option \<Rightarrow> (string \<rightharpoonup> string) \<Rightarrow> (string \<rightharpoonup> string)" where
  "batcher_writes K b a =
     (case addBatcherAnnotations K b (Some a) of
        Inr (flag, m) \<Rightarrow> map_entries m
      | Inl e \<Rightarrow> a)"

definition desired_annotations ::
  "('b, 'x, 'cfg, 'r, 'w, 'st) predictor \<Rightarrow> constants \<Rightarrow> ('b, 'x, 'st) inference_service
     \<Rightarrow> (string \<rightharpoonup> string)" where
  "desired_annotations p K isvc =
     (case Reconcile_annotations p K isvc of
        Inr (hasInferenceLogging, hasInferenceBatcher, annotations) \<Rightarrow> map_entries annotations
      | Inl e \<Rightarrow> Map.empty)"

text \<open>
  The annotation keys that lines 62 to 66 assign for a given parent: the storage key when the
  implementation has a storage URI, the logger keys when a logger is present (the sink-URL
  key only with a URL), the batcher keys when a batcher is present (a numeric key only with
  its number).
\<close>

definition written_keys ::
  "('b, 'x, 'cfg, 'r, 'w, 'st) predictor \<Rightarrow> constants \<Rightarrow> ('b, 'x, 'st) inference_service
     \<Rightarrow> string set" where
  "written_keys p K isvc =
     (case GetStorageUri (GetImplementation p (Predictor (Spec isvc))) of
        Some u \<Rightarrow> {StorageInitializerSourceUriInternalAnnotationKey K}
      | None \<Rightarrow> {})
     \<union> (case Logger (Predictor (Spec isvc)) of
          Some l \<Rightarrow>
            {LoggerInternalAnnotationKey K, LoggerModeInternalAnnotationKey K}
            \<union> (case URL l of Some u \<Rightarrow> {LoggerSinkUrlInternalAnnotationKey K} | None \<Rightarrow> {})
        | None \<Rightarrow> {})
     \<union> (case Batcher (Predictor (Spec isvc)) of
          Some bt \<Rightarrow>
            {BatcherInternalAnnotationKey K}
            \<union> (case MaxBatchSize bt of
                 Some n \<Rightarrow> {BatcherMaxBatchSizeInternalAnnotationKey K} | None \<Rightarrow> {})
            \<union> (case MaxLatency bt of
                 Some n \<Rightarrow> {BatcherMaxLatencyInternalAnnotationKey K} | None \<Rightarrow> {})
            \<union> (case Timeout bt of
                 Some n \<Rightarrow> {BatcherTimeoutInternalAnnotationKey K} | None \<Rightarrow> {})
        | None \<Rightarrow> {})"

subsection \<open>Example inputs\<close>

text \<open>
  Concrete values on which the theorems below are evaluated. The strings of
  \<open>example_constants\<close> are sample values for the constants of the other packages. The example
  predictor resolves a built-in runtime that is described by its storage URI alone, builds a
  container without ports from the configured image, and has a delegate that succeeds.
\<close>

definition example_constants :: constants where
  "example_constants =
     \<lparr>ServiceAnnotationDisallowedList =
        [''autoscaling.knative.dev/minScale'', ''autoscaling.knative.dev/maxScale'',
         ''internal.serving.kubeflow.org/storage-initializer-sourceuri'',
         ''kubectl.kubernetes.io/last-applied-configuration''],
      StorageInitializerSourceUriInternalAnnotationKey =
        ''internal.serving.kubeflow.org/storage-initializer-sourceuri'',
      LoggerInternalAnnotationKey = ''internal.serving.kubeflow.org/logger'',
      LoggerSinkUrlInternalAnnotationKey = ''internal.serving.kubeflow.org/logger-sink-url'',
      LoggerModeInternalAnnotationKey = ''internal.serving.kubeflow.org/logger-mode'',
      BatcherInternalAnnotationKey = ''internal.serving.kubeflow.org/batcher'',
      BatcherMaxBatchSizeInternalAnnotationKey =
        ''internal.serving.kubeflow.org/batcher-max-batchsize'',
      BatcherMaxLatencyInternalAnnotationKey =
        ''internal.serving.kubeflow.org/batcher-max-latency'',
      BatcherTimeoutInternalAnnotationKey = ''internal.serving.kubeflow.org/batcher-timeout'',
      InferenceServiceDefaultLoggerPort = ''9081'',
      InferenceServiceDefaultBatcherPort = ''9082'',
      InferenceServicePodLabelKey = ''serving.kubeflow.org/inferenceservice'',
      KServiceComponentLabel = ''component'',
      PredictorComponent = ''predictor''\<rparr>"

definition example_container :: container where
  "example_container =
     \<lparr>ContainerName = ''kfserving-container'', Image = ''sklearnserver:v0.5.0'',
      Args = [''--model_name=iris''], Ports = []\<rparr>"

definition example_predictor ::
  "(string option, nat, string, object_meta \<times> pod_spec, nat, string) predictor" where
  "example_predictor =
     \<lparr>inferenceServiceConfig = ''sklearnserver:v0.5.0'',
      GetImplementation =
        (\<lambda>ps. \<lparr>GetStorageUri = Builtin ps,
               GetContainer =
                 (\<lambda>meta ext cfg.
                    Some \<lparr>ContainerName = ''kfserving-container'', Image = cfg,
                          Args = [''--model_name='' @ Name meta], Ports = []\<rparr>)\<rparr>),
      GetExtensions = ComponentExtensionSpec,
      Union = (\<lambda>a b. a ++ b),
      NewKsvcReconciler = (\<lambda>meta ext spec st. (meta, spec)),
      SetControllerReference = (\<lambda>isvc r. (r, None)),
      KsvcReconcile = (\<lambda>w r. (Suc w, ''Ready'', None))\<rparr>"

definition example_isvc :: "(string option, nat, string) inference_service" where
  "example_isvc =
     \<lparr>ObjectMeta =
        \<lparr>Name = ''iris'', Namespace = ''default'', Labels = [''team'' \<mapsto> ''ml''],
         Annotations = [''autoscaling.knative.dev/minScale'' \<mapsto> ''1'',
                        ''internal.serving.kubeflow.org/logger'' \<mapsto> ''false'',
                        ''owner'' \<mapsto> ''ml'']\<rparr>,
      Spec =
        \<lparr>Predictor =
           \<lparr>Builtin = Some ''gs://bucket/iris'', Custom = None, ComponentExtensionSpec = 1,
            Logger = Some \<lparr>URL = None, Mode = ''request''\<rparr>, Batcher = None\<rparr>\<rparr>,
      Status = \<lparr>Components = Map.empty\<rparr>\<rparr>"

definition example_custom :: custom_predictor where
  "example_custom =
     \<lparr>PodTemplateSpec =
        \<lparr>Template_ObjectMeta = zero_object_meta,
         Template_Spec =
           \<lparr>Volumes = [\<lparr>VolumeName = ''cache''\<rparr>], InitContainers = [],
            Containers =
              [\<lparr>ContainerName = ''user'', Image = ''user:1'', Args = [], Ports = []\<rparr>,
               \<lparr>ContainerName = ''proxy'', Image = ''proxy:1'', Args = [],
                Ports = [port_entry 8443]\<rparr>],
            ServiceAccountName = ''models''\<rparr>\<rparr>\<rparr>"

text \<open>
  A client over a cluster that is the list of the names of the artifacts it holds:
  \<^verbatim>\<open>Create\<close> fails on a name that is there already.
\<close>

definition example_client :: "string list config_map_reconciler" where
  "example_client =
     \<lparr>client_Create =
        (\<lambda>w cm. if Name (ConfigMap_ObjectMeta cm) \<in> set w
                 then (w, Some (Error ''already exists''))
                 else (Name (ConfigMap_ObjectMeta cm) # w, None))\<rparr>"

section \<open>Properties\<close>

subsection \<open>Decimal strings\<close>

lemma parse_digits_append:
  "parse_digits a xs = Some v \<Longrightarrow> v < 2 ^ 64 - 1 \<Longrightarrow>
     parse_digits a (xs @ [c]) =
       (if \<not> is_digit c then None
        else if v * 10 + (of_char c - 48) > 2 ^ 64 - 1 then Some (2 ^ 64 - 1)
        else Some (v * 10 + (of_char c - 48)))"
  by (induction xs arbitrary: a) (auto split: if_splits)

lemma is_digit_digit_char: "d < 10 \<Longrightarrow> is_digit (digit_char d)"
  by (simp add: is_digit_def digit_char_def)

lemma of_char_digit_char: "d < 10 \<Longrightarrow> (of_char (digit_char d) :: int) = 48 + int d"
proof -
  assume d: "d < 10"
  have "(of_char (digit_char d) :: int) = int (of_char (digit_char d))"
    by (simp only: of_nat_of_char)
  also have "(of_char (digit_char d) :: nat) = (48 + d) mod 256"
    by (simp only: digit_char_def of_char_of)
  also have "(48 + d) mod 256 = 48 + d" using d by simp
  finally show ?thesis by simp
qed

lemma digits_not_Nil: "digits n \<noteq> []"
  by (subst digits.simps) simp

lemma parse_digits_digits: "int n < 2 ^ 64 \<Longrightarrow> parse_digits 0 (digits n) = Some (int n)"
proof (induction n rule: digits.induct)
  case (1 n)
  show ?case
  proof (cases "n < 10")
    case True
    then show ?thesis
      by (subst digits.simps) (simp add: is_digit_digit_char of_char_digit_char)
  next
    case False
    have m: "n mod 10 < 10" by simp
    from False have "int (n div 10) < int n" by simp
    with "1.prems" have small: "int (n div 10) < 2 ^ 64 - 1" by linarith
    with False 1 have ih: "parse_digits 0 (digits (n div 10)) = Some (int (n div 10))" by simp
    have n: "int (n div 10) * 10 + int (n mod 10) = int n"
      by (simp add: zdiv_int zmod_int)
    have "parse_digits 0 (digits n) = parse_digits 0 (digits (n div 10) @ [digit_char (n mod 10)])"
      using False by (subst digits.simps) simp
    also have "\<dots> = Some (int (n div 10) * 10 + int (n mod 10))"
      using "1.prems" n
      by (simp add: parse_digits_append [OF ih small] is_digit_digit_char [OF m]
            of_char_digit_char [OF m])
    finally show ?thesis using n by simp
  qed
qed

lemma hd_digits: "hd (digits n) \<noteq> CHR ''-'' \<and> hd (digits n) \<noteq> CHR ''+''"
proof (induction n rule: digits.induct)
  case (1 n)
  show ?case
  proof (cases "n < 10")
    case True
    then have "is_digit (hd (digits n))"
      by (subst digits.simps) (simp add: is_digit_digit_char)
    then show ?thesis by (auto simp: is_digit_def)
  next
    case False
    with 1 have "hd (digits (n div 10)) \<noteq> CHR ''-'' \<and> hd (digits (n div 10)) \<noteq> CHR ''+''" by simp
    moreover have "hd (digits n) = hd (digits (n div 10))"
      using False digits_not_Nil [of "n div 10"] by (subst digits.simps) simp
    ultimately show ?thesis by simp
  qed
qed

lemma digits_all_digit: "c \<in> set (digits n) \<Longrightarrow> is_digit c"
proof (induction n rule: digits.induct)
  case (1 n)
  show ?case
  proof (cases "n < 10")
    case True
    with "1.prems" show ?thesis
      by (subst (asm) digits.simps) (simp add: is_digit_digit_char)
  next
    case False
    have m: "n mod 10 < 10" by simp
    from "1.prems" False have "c \<in> set (digits (n div 10)) \<or> c = digit_char (n mod 10)"
      by (subst (asm) digits.simps) auto
    with 1 False is_digit_digit_char [OF m] show ?thesis by auto
  qed
qed

lemma digits_value: "foldl (\<lambda>v c. v * 10 + (of_char c - 48)) 0 (digits n) = int n"
proof (induction n rule: digits.induct)
  case (1 n)
  show ?case
  proof (cases "n < 10")
    case True
    then show ?thesis
      by (subst digits.simps) (simp add: of_char_digit_char)
  next
    case False
    have m: "n mod 10 < 10" by simp
    have n: "int (n div 10) * 10 + int (n mod 10) = int n"
      by (simp add: zdiv_int zmod_int)
    from False 1 have
      "foldl (\<lambda>v c. v * 10 + (of_char c - 48)) 0 (digits (n div 10)) = int (n div 10)"
      by simp
    with False n show ?thesis
      by (subst digits.simps) (simp add: of_char_digit_char [OF m])
  qed
qed

lemma hd_digits_not_zero: "0 < n \<Longrightarrow> hd (digits n) \<noteq> CHR ''0''"
proof (induction n rule: digits.induct)
  case (1 n)
  show ?case
  proof (cases "n < 10")
    case True
    have "(of_char (hd (digits n)) :: int) = 48 + int n"
      using True by (subst digits.simps) (simp add: of_char_digit_char)
    with "1.prems" show ?thesis by auto
  next
    case False
    then have "0 < n div 10" by simp
    with 1 False have "hd (digits (n div 10)) \<noteq> CHR ''0''" by simp
    moreover have "hd (digits n) = hd (digits (n div 10))"
      using False digits_not_Nil [of "n div 10"] by (subst digits.simps) simp
    ultimately show ?thesis by simp
  qed
qed

lemma Atoi_Itoa: "- (2 ^ 63) \<le> i \<Longrightarrow> i < 2 ^ 63 \<Longrightarrow> Atoi (Itoa i) = i"
proof (cases "i < 0")
  case True
  assume "- (2 ^ 63) \<le> i"
  with True have "int (nat (- i)) < 2 ^ 64" by simp
  from parse_digits_digits [OF this] True \<open>- (2 ^ 63) \<le> i\<close> show ?thesis
    using digits_not_Nil [of "nat (- i)"]
    by (simp add: Atoi_def Itoa_def)
next
  case False
  assume b: "i < 2 ^ 63"
  obtain c cs where d: "digits (nat i) = c # cs"
    using digits_not_Nil [of "nat i"] by (cases "digits (nat i)") auto
  from hd_digits [of "nat i"] d have c: "c \<noteq> CHR ''-''" "c \<noteq> CHR ''+''" by auto
  from False b have "int (nat i) < 2 ^ 64" by simp
  from parse_digits_digits [OF this] d
  have p: "parse_digits 0 (c # cs) = Some (int (nat i))" by simp
  show ?thesis
    using False b c p d by (simp add: Atoi_def Itoa_def del: parse_digits.simps)
qed

lemma Itoa_decimal:
  "Itoa n \<noteq> []"
  "n < 0 \<Longrightarrow> Itoa n = CHR ''-'' # Itoa (- n)"
  "0 \<le> n \<Longrightarrow> c \<in> set (Itoa n) \<Longrightarrow> is_digit c"
  "0 \<le> n \<Longrightarrow> foldl (\<lambda>v c. v * 10 + (of_char c - 48)) 0 (Itoa n) = n"
  "0 < n \<Longrightarrow> hd (Itoa n) \<noteq> CHR ''0''"
  by (simp_all add: Itoa_def digits_not_Nil digits_all_digit digits_value hd_digits_not_zero)

lemma Atoi_Itoa_port:
  assumes "0 \<le> i" and "i < 2 ^ 31"
  shows "sint (word_of_int (Atoi (Itoa i)) :: 32 word) = i"
proof -
  have "(2 :: int) ^ 31 < 2 ^ 63" by simp
  with assms have "Atoi (Itoa i) = i" by (intro Atoi_Itoa) linarith+
  moreover have "sint (word_of_int i :: 32 word) = i"
    using assms by (simp add: sint_sbintrunc' signed_take_bit_int_eq_self)
  ultimately show ?thesis by simp
qed

subsection \<open>Logger and batcher annotations\<close>

lemma logger_writes_eq:
  "logger_writes K lg a =
     (case lg of
        Some l \<Rightarrow>
          (let a1 = a(LoggerInternalAnnotationKey K \<mapsto> ''true'');
               a2 = (case URL l of
                       Some u \<Rightarrow> a1(LoggerSinkUrlInternalAnnotationKey K \<mapsto> u)
                     | None \<Rightarrow> a1)
           in a2(LoggerModeInternalAnnotationKey K \<mapsto> Mode l))
      | None \<Rightarrow> a)"
  by (simp add: logger_writes_def addLoggerAnnotations_def map_assign_def map_entries_def Let_def
        split: option.splits)

lemma addLoggerAnnotations_Some:
  "addLoggerAnnotations K lg (Some a) = Inr (lg \<noteq> None, Some (logger_writes K lg a))"
  by (simp add: logger_writes_def addLoggerAnnotations_def map_assign_def map_entries_def
        split: option.splits)

lemma batcher_writes_eq:
  "batcher_writes K b a =
     (case b of
        Some bt \<Rightarrow>
          (let a1 = a(BatcherInternalAnnotationKey K \<mapsto> ''true'');
               a2 = (case MaxBatchSize bt of
                       Some n \<Rightarrow> a1(BatcherMaxBatchSizeInternalAnnotationKey K \<mapsto> Itoa n)
                     | None \<Rightarrow> a1);
               a3 = (case MaxLatency bt of
                       Some n \<Rightarrow> a2(BatcherMaxLatencyInternalAnnotationKey K \<mapsto> Itoa n)
                     | None \<Rightarrow> a2)
           in (case Timeout bt of
                 Some n \<Rightarrow> a3(BatcherTimeoutInternalAnnotationKey K \<mapsto> Itoa n)
               | None \<Rightarrow> a3))
      | None \<Rightarrow> a)"
  by (simp add: batcher_writes_def addBatcherAnnotations_def map_assign_def map_entries_def
        Let_def split: option.splits)

lemma addBatcherAnnotations_Some:
  "addBatcherAnnotations K b (Some a) = Inr (b \<noteq> None, Some (batcher_writes K b a))"
  by (simp add: batcher_writes_def addBatcherAnnotations_def map_assign_def map_entries_def
        split: option.splits)




text \<open>
  C5 (amended). With pairwise different batcher keys: an absent batcher leaves every map as
  it is and returns false. On a map that is not nil a present batcher returns true and sets
  batching-enabled = \<open>true\<close>; each of max-batch-size, max-latency and timeout that is present
  is written as \<^verbatim>\<open>strconv.Itoa\<close> of its value and each that is absent leaves its key as it
  was; no other key changes, so with all three absent only batching-enabled is set. On a nil
  map a present batcher makes the call panic at its first assignment. \<open>Itoa\<close> gives the
  decimal string: never empty; a minus sign and the string of the absolute value for a
  negative number; for a number from 0 on, digits only, whose value read in base ten is the
  number, with no leading zero unless the number is 0; \<open>Atoi\<close> reads it back. So 32, 100 and
  60 give \<open>32\<close>, \<open>100\<close> and \<open>60\<close>.
\<close>

theorem addBatcherAnnotations_encoding:
  assumes "distinct [BatcherInternalAnnotationKey K, BatcherMaxBatchSizeInternalAnnotationKey K,
                     BatcherMaxLatencyInternalAnnotationKey K,
                     BatcherTimeoutInternalAnnotationKey K]"
  shows "(\<forall>m. addBatcherAnnotations K None m = Inr (False, m))
       \<and> (\<forall>bt. addBatcherAnnotations K (Some bt) None = Inl AssignmentToEntryInNilMap)
       \<and> (\<forall>bt a. \<exists>a'.
            addBatcherAnnotations K (Some bt) (Some a) = Inr (True, Some a')
          \<and> a' (BatcherInternalAnnotationKey K) = Some ''true''
          \<and> a' (BatcherMaxBatchSizeInternalAnnotationKey K)
              = (case MaxBatchSize bt of
                   Some n \<Rightarrow> Some (Itoa n)
                 | None \<Rightarrow> a (BatcherMaxBatchSizeInternalAnnotationKey K))
          \<and> a' (BatcherMaxLatencyInternalAnnotationKey K)
              = (case MaxLatency bt of
                   Some n \<Rightarrow> Some (Itoa n)
                 | None \<Rightarrow> a (BatcherMaxLatencyInternalAnnotationKey K))
          \<and> a' (BatcherTimeoutInternalAnnotationKey K)
              = (case Timeout bt of
                   Some n \<Rightarrow> Some (Itoa n)
                 | None \<Rightarrow> a (BatcherTimeoutInternalAnnotationKey K))
          \<and> (\<forall>k. k \<notin> {BatcherInternalAnnotationKey K, BatcherMaxBatchSizeInternalAnnotationKey K,
                       BatcherMaxLatencyInternalAnnotationKey K,
                       BatcherTimeoutInternalAnnotationKey K}
                 \<longrightarrow> a' k = a k)
          \<and> (MaxBatchSize bt = None \<and> MaxLatency bt = None \<and> Timeout bt = None
                 \<longrightarrow> a' = a(BatcherInternalAnnotationKey K \<mapsto> ''true'')))
       \<and> (\<forall>n. Itoa n \<noteq> []
              \<and> (n < 0 \<longrightarrow> Itoa n = CHR ''-'' # Itoa (- n))
              \<and> (0 \<le> n \<longrightarrow>
                    (\<forall>c \<in> set (Itoa n). is_digit c)
                  \<and> foldl (\<lambda>v c. v * 10 + (of_char c - 48)) 0 (Itoa n) = n)
              \<and> (0 < n \<longrightarrow> hd (Itoa n) \<noteq> CHR ''0'')
              \<and> (- (2 ^ 63) \<le> n \<and> n < 2 ^ 63 \<longrightarrow> Atoi (Itoa n) = n))
       \<and> Itoa 32 = ''32'' \<and> Itoa 100 = ''100'' \<and> Itoa 60 = ''60''"
proof -
  have ex: "Itoa 32 = ''32'' \<and> Itoa 100 = ''100'' \<and> Itoa 60 = ''60''"
    by code_simp
  have absent: "\<forall>m. addBatcherAnnotations K None m = Inr (False, m)"
    by (simp add: addBatcherAnnotations_def)
  have nil: "\<forall>bt. addBatcherAnnotations K (Some bt) None = Inl AssignmentToEntryInNilMap"
    by (simp add: addBatcherAnnotations_def map_assign_def)
  have some: "\<exists>a'.
            addBatcherAnnotations K (Some bt) (Some a) = Inr (True, Some a')
          \<and> a' (BatcherInternalAnnotationKey K) = Some ''true''
          \<and> a' (BatcherMaxBatchSizeInternalAnnotationKey K)
              = (case MaxBatchSize bt of
                   Some n \<Rightarrow> Some (Itoa n)
                 | None \<Rightarrow> a (BatcherMaxBatchSizeInternalAnnotationKey K))
          \<and> a' (BatcherMaxLatencyInternalAnnotationKey K)
              = (case MaxLatency bt of
                   Some n \<Rightarrow> Some (Itoa n)
                 | None \<Rightarrow> a (BatcherMaxLatencyInternalAnnotationKey K))
          \<and> a' (BatcherTimeoutInternalAnnotationKey K)
              = (case Timeout bt of
                   Some n \<Rightarrow> Some (Itoa n)
                 | None \<Rightarrow> a (BatcherTimeoutInternalAnnotationKey K))
          \<and> (\<forall>k. k \<notin> {BatcherInternalAnnotationKey K, BatcherMaxBatchSizeInternalAnnotationKey K,
                       BatcherMaxLatencyInternalAnnotationKey K,
                       BatcherTimeoutInternalAnnotationKey K}
                 \<longrightarrow> a' k = a k)
          \<and> (MaxBatchSize bt = None \<and> MaxLatency bt = None \<and> Timeout bt = None
                 \<longrightarrow> a' = a(BatcherInternalAnnotationKey K \<mapsto> ''true''))" for bt a
  proof (intro exI [of _ "batcher_writes K (Some bt) a"] conjI)
    show "addBatcherAnnotations K (Some bt) (Some a)
            = Inr (True, Some (batcher_writes K (Some bt) a))"
      by (simp add: addBatcherAnnotations_Some)
  qed (use assms in \<open>auto simp: batcher_writes_eq Let_def split: option.splits\<close>)
  have dec: "Itoa n \<noteq> []
              \<and> (n < 0 \<longrightarrow> Itoa n = CHR ''-'' # Itoa (- n))
              \<and> (0 \<le> n \<longrightarrow>
                    (\<forall>c \<in> set (Itoa n). is_digit c)
                  \<and> foldl (\<lambda>v c. v * 10 + (of_char c - 48)) 0 (Itoa n) = n)
              \<and> (0 < n \<longrightarrow> hd (Itoa n) \<noteq> CHR ''0'')
              \<and> (- (2 ^ 63) \<le> n \<and> n < 2 ^ 63 \<longrightarrow> Atoi (Itoa n) = n)" for n
  proof (intro conjI impI ballI)
    show "Itoa n \<noteq> []" by (rule Itoa_decimal(1))
  next
    assume "n < 0"
    then show "Itoa n = CHR ''-'' # Itoa (- n)" by (rule Itoa_decimal(2))
  next
    fix c assume "0 \<le> n" "c \<in> set (Itoa n)"
    then show "is_digit c" by (rule Itoa_decimal(3))
  next
    assume "0 \<le> n"
    then show "foldl (\<lambda>v c. v * 10 + (of_char c - 48)) 0 (Itoa n) = n"
      by (rule Itoa_decimal(4))
  next
    assume "0 < n"
    then show "hd (Itoa n) \<noteq> CHR ''0''" by (rule Itoa_decimal(5))
  next
    assume "- (2 ^ 63) \<le> n \<and> n < 2 ^ 63"
    then show "Atoi (Itoa n) = n" by (simp add: Atoi_Itoa)
  qed
  have some': "\<forall>bt a. \<exists>a'.
            addBatcherAnnotations K (Some bt) (Some a) = Inr (True, Some a')
          \<and> a' (BatcherInternalAnnotationKey K) = Some ''true''
          \<and> a' (BatcherMaxBatchSizeInternalAnnotationKey K)
              = (case MaxBatchSize bt of
                   Some n \<Rightarrow> Some (Itoa n)
                 | None \<Rightarrow> a (BatcherMaxBatchSizeInternalAnnotationKey K))
          \<and> a' (BatcherMaxLatencyInternalAnnotationKey K)
              = (case MaxLatency bt of
                   Some n \<Rightarrow> Some (Itoa n)
                 | None \<Rightarrow> a (BatcherMaxLatencyInternalAnnotationKey K))
          \<and> a' (BatcherTimeoutInternalAnnotationKey K)
              = (case Timeout bt of
                   Some n \<Rightarrow> Some (Itoa n)
                 | None \<Rightarrow> a (BatcherTimeoutInternalAnnotationKey K))
          \<and> (\<forall>k. k \<notin> {BatcherInternalAnnotationKey K, BatcherMaxBatchSizeInternalAnnotationKey K,
                       BatcherMaxLatencyInternalAnnotationKey K,
                       BatcherTimeoutInternalAnnotationKey K}
                 \<longrightarrow> a' k = a k)
          \<and> (MaxBatchSize bt = None \<and> MaxLatency bt = None \<and> Timeout bt = None
                 \<longrightarrow> a' = a(BatcherInternalAnnotationKey K \<mapsto> ''true''))"
    using some by (intro allI)
  have dec': "\<forall>n. Itoa n \<noteq> []
              \<and> (n < 0 \<longrightarrow> Itoa n = CHR ''-'' # Itoa (- n))
              \<and> (0 \<le> n \<longrightarrow>
                    (\<forall>c \<in> set (Itoa n). is_digit c)
                  \<and> foldl (\<lambda>v c. v * 10 + (of_char c - 48)) 0 (Itoa n) = n)
              \<and> (0 < n \<longrightarrow> hd (Itoa n) \<noteq> CHR ''0'')
              \<and> (- (2 ^ 63) \<le> n \<and> n < 2 ^ 63 \<longrightarrow> Atoi (Itoa n) = n)"
    using dec by (intro allI)
  show ?thesis
    by (rule conjI [OF absent conjI [OF nil conjI [OF some' conjI [OF dec' ex]]]])
qed

theorem addBatcherAnnotations_encoding_witness:
  "distinct [BatcherInternalAnnotationKey example_constants,
             BatcherMaxBatchSizeInternalAnnotationKey example_constants,
             BatcherMaxLatencyInternalAnnotationKey example_constants,
             BatcherTimeoutInternalAnnotationKey example_constants]
   \<and> (case addBatcherAnnotations example_constants (Some \<lparr>MaxBatchSize = Some 32, MaxLatency = Some 100, Timeout = Some 60\<rparr>) (Some Map.empty) of
        Inl e \<Rightarrow> False
      | Inr (flag, m) \<Rightarrow>
          flag
        \<and> map_entries m ''internal.serving.kubeflow.org/batcher'' = Some ''true''
        \<and> map_entries m ''internal.serving.kubeflow.org/batcher-max-batchsize'' = Some ''32''
        \<and> map_entries m ''internal.serving.kubeflow.org/batcher-max-latency'' = Some ''100''
        \<and> map_entries m ''internal.serving.kubeflow.org/batcher-timeout'' = Some ''60'')
   \<and> (- (2 ^ 63) \<le> (32 :: int) \<and> (32 :: int) < 2 ^ 63 \<and> Atoi (Itoa 32) = 32)"
proof -
  have d: "distinct [BatcherInternalAnnotationKey example_constants,
             BatcherMaxBatchSizeInternalAnnotationKey example_constants,
             BatcherMaxLatencyInternalAnnotationKey example_constants,
             BatcherTimeoutInternalAnnotationKey example_constants]"
    by (simp add: example_constants_def)
  have k: "BatcherInternalAnnotationKey example_constants
             = ''internal.serving.kubeflow.org/batcher''"
    "BatcherMaxBatchSizeInternalAnnotationKey example_constants
       = ''internal.serving.kubeflow.org/batcher-max-batchsize''"
    "BatcherMaxLatencyInternalAnnotationKey example_constants
       = ''internal.serving.kubeflow.org/batcher-max-latency''"
    "BatcherTimeoutInternalAnnotationKey example_constants
       = ''internal.serving.kubeflow.org/batcher-timeout''"
    by (simp_all add: example_constants_def)
  note t = addBatcherAnnotations_encoding [OF d]
  note some = t [THEN conjunct2, THEN conjunct2, THEN conjunct1, rule_format]
  note dec = t [THEN conjunct2, THEN conjunct2, THEN conjunct2, THEN conjunct1, rule_format]
  note ex = t [THEN conjunct2, THEN conjunct2, THEN conjunct2, THEN conjunct2]
  have r: "case addBatcherAnnotations example_constants
                  (Some \<lparr>MaxBatchSize = Some 32, MaxLatency = Some 100, Timeout = Some 60\<rparr>)
                  (Some Map.empty) of
        Inl e \<Rightarrow> False
      | Inr (flag, m) \<Rightarrow>
          flag
        \<and> map_entries m ''internal.serving.kubeflow.org/batcher'' = Some ''true''
        \<and> map_entries m ''internal.serving.kubeflow.org/batcher-max-batchsize'' = Some ''32''
        \<and> map_entries m ''internal.serving.kubeflow.org/batcher-max-latency'' = Some ''100''
        \<and> map_entries m ''internal.serving.kubeflow.org/batcher-timeout'' = Some ''60''"
    using some [of "\<lparr>MaxBatchSize = Some 32, MaxLatency = Some 100, Timeout = Some 60\<rparr>" Map.empty]
    by (elim exE conjE) (simp add: k ex map_entries_def)
  have i: "Atoi (Itoa 32) = 32"
    using dec [of 32] by simp
  from d r i show ?thesis by simp
qed

theorem addBatcherAnnotations_encoding_counterexample:
  "addBatcherAnnotations example_constants (Some \<lparr>MaxBatchSize = Some 32, MaxLatency = Some 100, Timeout = Some 60\<rparr>) None = Inl AssignmentToEntryInNilMap"
  by (simp add: addBatcherAnnotations_def map_assign_def)

subsection \<open>Sidecar ports\<close>

text \<open>
  C6. On a container without ports each port patch leaves exactly one port entry, whose
  number is the constant read by \<^verbatim>\<open>strconv.Atoi\<close> and converted to int32 and whose other
  fields are zero; when the constant is the decimal string of a number from 0 to
  \<open>2^31 - 1\<close> the port is that number. On a container with one or more ports the patch
  changes nothing. Hence a second application of the same patch is a no-op, and after
  patching a container without ports the port count is 1 and stays 1.
\<close>

theorem container_port_patch:
  "(Ports c = [] \<longrightarrow>
      addLoggerContainerPort K (Some c)
        = Some (c\<lparr>Ports := [port_entry (word_of_int (Atoi (InferenceServiceDefaultLoggerPort K)))]\<rparr>)
    \<and> addBatcherContainerPort K (Some c)
        = Some (c\<lparr>Ports := [port_entry (word_of_int (Atoi (InferenceServiceDefaultBatcherPort K)))]\<rparr>))
   \<and> (Ports c \<noteq> [] \<longrightarrow>
        addLoggerContainerPort K (Some c) = Some c \<and> addBatcherContainerPort K (Some c) = Some c)
   \<and> (\<forall>c'. addLoggerContainerPort K (Some c) = Some c' \<longrightarrow>
          addLoggerContainerPort K (Some c') = Some c'
        \<and> (Ports c = [] \<longrightarrow> length (Ports c') = 1))
   \<and> (\<forall>c'. addBatcherContainerPort K (Some c) = Some c' \<longrightarrow>
          addBatcherContainerPort K (Some c') = Some c'
        \<and> (Ports c = [] \<longrightarrow> length (Ports c') = 1))
   \<and> (\<forall>i. 0 \<le> i \<and> i < 2 ^ 31 \<longrightarrow>
          sint (ContainerPort (port_entry (word_of_int (Atoi (Itoa i))))) = i)"
proof -
  have port: "\<forall>i. 0 \<le> i \<and> i < 2 ^ 31 \<longrightarrow>
          sint (ContainerPort (port_entry (word_of_int (Atoi (Itoa i))))) = i"
    by (simp add: port_entry_def Atoi_Itoa_port)
  have patch: "(Ports c = [] \<longrightarrow>
      addLoggerContainerPort K (Some c)
        = Some (c\<lparr>Ports := [port_entry (word_of_int (Atoi (InferenceServiceDefaultLoggerPort K)))]\<rparr>)
    \<and> addBatcherContainerPort K (Some c)
        = Some (c\<lparr>Ports := [port_entry (word_of_int (Atoi (InferenceServiceDefaultBatcherPort K)))]\<rparr>))
   \<and> (Ports c \<noteq> [] \<longrightarrow>
        addLoggerContainerPort K (Some c) = Some c \<and> addBatcherContainerPort K (Some c) = Some c)"
    by (simp add: addLoggerContainerPort_def addBatcherContainerPort_def)
  have again: "(\<forall>c'. addLoggerContainerPort K (Some c) = Some c' \<longrightarrow>
          addLoggerContainerPort K (Some c') = Some c'
        \<and> (Ports c = [] \<longrightarrow> length (Ports c') = 1))
   \<and> (\<forall>c'. addBatcherContainerPort K (Some c) = Some c' \<longrightarrow>
          addBatcherContainerPort K (Some c') = Some c'
        \<and> (Ports c = [] \<longrightarrow> length (Ports c') = 1))"
    by (auto simp: addLoggerContainerPort_def addBatcherContainerPort_def)
  from port patch again show ?thesis by blast
qed

theorem container_port_patch_witness:
  "Ports example_container = []
   \<and> addLoggerContainerPort example_constants (Some example_container)
       = Some (example_container\<lparr>Ports := [port_entry 9081]\<rparr>)
   \<and> addBatcherContainerPort example_constants (Some example_container)
       = Some (example_container\<lparr>Ports := [port_entry 9082]\<rparr>)
   \<and> Ports (example_container\<lparr>Ports := [port_entry 9081]\<rparr>) \<noteq> []
   \<and> addLoggerContainerPort example_constants (Some (example_container\<lparr>Ports := [port_entry 9081]\<rparr>))
       = Some (example_container\<lparr>Ports := [port_entry 9081]\<rparr>)
   \<and> addBatcherContainerPort example_constants (Some (example_container\<lparr>Ports := [port_entry 9081]\<rparr>))
       = Some (example_container\<lparr>Ports := [port_entry 9081]\<rparr>)
   \<and> length (Ports (example_container\<lparr>Ports := [port_entry 9081]\<rparr>)) = 1"
proof -
  have e: "Ports example_container = []" by (simp add: example_container_def)
  have n: "Ports (example_container\<lparr>Ports := [port_entry 9081]\<rparr>) \<noteq> []" by simp
  have a: "Atoi ''9081'' = 9081" "Atoi ''9082'' = 9082"
    by (simp_all add: Atoi_def is_digit_def)
  from container_port_patch [of example_container example_constants]
       container_port_patch [of "example_container\<lparr>Ports := [port_entry 9081]\<rparr>" example_constants]
       e n a
  show ?thesis
    by (simp add: example_constants_def)
qed

subsection \<open>The synthesis phase\<close>

lemma Reconcile_annotations_eq:
  "Reconcile_annotations p K isvc =
     Inr (Logger (Predictor (Spec isvc)) \<noteq> None, Batcher (Predictor (Spec isvc)) \<noteq> None,
          Some (batcher_writes K (Batcher (Predictor (Spec isvc)))
            (logger_writes K (Logger (Predictor (Spec isvc)))
               (case GetStorageUri (GetImplementation p (Predictor (Spec isvc))) of
                  Some sourceURI \<Rightarrow>
                    (Filter (Annotations (ObjectMeta isvc))
                       (\<lambda>key. \<not> Includes (ServiceAnnotationDisallowedList K) key))
                    (StorageInitializerSourceUriInternalAnnotationKey K \<mapsto> sourceURI)
                | None \<Rightarrow>
                    Filter (Annotations (ObjectMeta isvc))
                      (\<lambda>key. \<not> Includes (ServiceAnnotationDisallowedList K) key)))))"
  by (simp add: Reconcile_annotations_def Let_def map_assign_def addLoggerAnnotations_Some
        addBatcherAnnotations_Some split: option.splits)

lemma Reconcile_annotations_snd:
  "desired_annotations p K isvc =
     batcher_writes K (Batcher (Predictor (Spec isvc)))
       (logger_writes K (Logger (Predictor (Spec isvc)))
          (case GetStorageUri (GetImplementation p (Predictor (Spec isvc))) of
             Some sourceURI \<Rightarrow>
               (Filter (Annotations (ObjectMeta isvc))
                  (\<lambda>key. \<not> Includes (ServiceAnnotationDisallowedList K) key))
               (StorageInitializerSourceUriInternalAnnotationKey K \<mapsto> sourceURI)
           | None \<Rightarrow>
               Filter (Annotations (ObjectMeta isvc))
                 (\<lambda>key. \<not> Includes (ServiceAnnotationDisallowedList K) key)))"
  by (simp add: desired_annotations_def Reconcile_annotations_eq map_entries_def)

lemma Reconcile_annotations_Inr:
  "Reconcile_annotations p K isvc =
     Inr (Logger (Predictor (Spec isvc)) \<noteq> None, Batcher (Predictor (Spec isvc)) \<noteq> None,
          Some (desired_annotations p K isvc))"
  by (simp only: Reconcile_annotations_snd Reconcile_annotations_eq)

lemma Reconcile_ports_Cons:
  "custom_Containers cu = c # rest \<Longrightarrow>
     Reconcile_ports K hl hb cu = Inr (set_custom_Containers cu (patch_ports K hl hb c # rest))"
  by (simp add: Reconcile_ports_def patch_ports_def on_first_def addLoggerContainerPort_def
        addBatcherContainerPort_def Let_def)

lemma custom_Containers_set [simp]:
  "custom_Containers (set_custom_Containers cu cs) = cs"
  by (simp add: custom_Containers_def set_custom_Containers_def)

lemma set_custom_Containers_twice [simp]:
  "set_custom_Containers (set_custom_Containers cu cs) cs' = set_custom_Containers cu cs'"
  by (simp add: set_custom_Containers_def)

lemma set_custom_Containers_same:
  "custom_Containers cu = cs \<Longrightarrow> set_custom_Containers cu cs = cu"
  by (simp add: custom_Containers_def set_custom_Containers_def)

lemma Reconcile_synthesis_eq:
  "Reconcile_synthesis p K isvc =
     (case Reconcile_container p isvc of
        Inl e \<Rightarrow> Inl e
      | Inr cu \<Rightarrow>
          (case Reconcile_ports K (Logger (Predictor (Spec isvc)) \<noteq> None)
                  (Batcher (Predictor (Spec isvc)) \<noteq> None) cu of
             Inl e \<Rightarrow> Inl e
           | Inr cu' \<Rightarrow>
               Inr (Reconcile_objectMeta p K isvc (desired_annotations p K isvc),
                    set_Custom isvc (Some cu'))))"
  unfolding Reconcile_synthesis_def Let_def Reconcile_annotations_Inr
  by (simp only: sum.case prod.case map_entries_def option.case)

lemma Reconcile_container_None:
  "Custom (Predictor (Spec isvc)) = None \<Longrightarrow>
     Reconcile_container p isvc =
       (case built_container p isvc of
          None \<Rightarrow> Inl NilPointerDereference
        | Some container \<Rightarrow>
            Inr \<lparr>PodTemplateSpec =
                   \<lparr>Template_ObjectMeta = zero_object_meta,
                    Template_Spec =
                      \<lparr>Volumes = [], InitContainers = [], Containers = [container],
                       ServiceAccountName = []\<rparr>\<rparr>\<rparr>)"
  by (simp add: Reconcile_container_def Let_def)

lemma Reconcile_container_Some:
  "Custom (Predictor (Spec isvc)) = Some cu \<Longrightarrow>
     Reconcile_container p isvc =
       (case built_container p isvc of
          None \<Rightarrow> Inl NilPointerDereference
        | Some container \<Rightarrow>
            (case custom_Containers cu of
               [] \<Rightarrow> Inl IndexOutOfRange
             | c0 # rest \<Rightarrow> Inr (set_custom_Containers cu (container # rest))))"
  by (simp add: Reconcile_container_def Let_def)

lemma Reconcile_container_nonempty:
  "Reconcile_container p isvc = Inr cu \<Longrightarrow>
     \<exists>fresh rest. custom_Containers cu = fresh # rest
       \<and> built_container p isvc = Some fresh
       \<and> (case Custom (Predictor (Spec isvc)) of
            None \<Rightarrow> rest = []
              \<and> cu = \<lparr>PodTemplateSpec =
                        \<lparr>Template_ObjectMeta = zero_object_meta,
                         Template_Spec =
                           \<lparr>Volumes = [], InitContainers = [], Containers = [fresh],
                            ServiceAccountName = []\<rparr>\<rparr>\<rparr>
          | Some old \<Rightarrow> rest = tl (custom_Containers old) \<and> custom_Containers old \<noteq> []
              \<and> cu = set_custom_Containers old (fresh # rest))"
  by (cases "Custom (Predictor (Spec isvc))")
     (auto simp: Reconcile_container_None Reconcile_container_Some custom_Containers_def
        set_custom_Containers_def split: option.splits list.splits)

lemma Reconcile_synthesis_Inr:
  assumes "Reconcile_synthesis p K isvc = Inr (objectMeta, isvc1)"
  shows "\<exists>cu fresh rest.
           Reconcile_container p isvc = Inr cu
         \<and> custom_Containers cu = fresh # rest
         \<and> built_container p isvc = Some fresh
         \<and> objectMeta = Reconcile_objectMeta p K isvc (desired_annotations p K isvc)
         \<and> isvc1 = set_Custom isvc
              (Some (set_custom_Containers cu
                 (patch_ports K (Logger (Predictor (Spec isvc)) \<noteq> None)
                    (Batcher (Predictor (Spec isvc)) \<noteq> None) fresh # rest)))"
proof -
  from assms obtain cu where cu: "Reconcile_container p isvc = Inr cu"
    by (auto simp: Reconcile_synthesis_eq split: sum.splits)
  from Reconcile_container_nonempty [OF cu] obtain fresh rest where
    f: "custom_Containers cu = fresh # rest"
       "built_container p isvc = Some fresh"
    by blast
  from assms cu f show ?thesis
    by (simp add: Reconcile_synthesis_eq Reconcile_ports_Cons)
qed

lemma Reconcile_Inr:
  assumes "Reconcile p K w isvc = Inr (w1, isvc2, err)"
  shows "\<exists>objectMeta isvc1.
           Reconcile_synthesis p K isvc = Inr (objectMeta, isvc1)
         \<and> Spec isvc2 = Spec isvc1 \<and> ObjectMeta isvc2 = ObjectMeta isvc1
         \<and> (err \<noteq> None \<longrightarrow> isvc2 = isvc1)"
  using assms
  by (auto simp: Reconcile_def Let_def split: sum.splits option.splits prod.splits)

lemma set_Custom_simps [simp]:
  "Custom (Predictor (Spec (set_Custom isvc cu))) = cu"
  "ObjectMeta (set_Custom isvc cu) = ObjectMeta isvc"
  "Status (set_Custom isvc cu) = Status isvc"
  "Logger (Predictor (Spec (set_Custom isvc cu))) = Logger (Predictor (Spec isvc))"
  "Batcher (Predictor (Spec (set_Custom isvc cu))) = Batcher (Predictor (Spec isvc))"
  "Builtin (Predictor (Spec (set_Custom isvc cu))) = Builtin (Predictor (Spec isvc))"
  "ComponentExtensionSpec (Predictor (Spec (set_Custom isvc cu)))
     = ComponentExtensionSpec (Predictor (Spec isvc))"
  by (simp_all add: set_Custom_def)

subsection \<open>The example parent\<close>

lemma example_synthesis:
  assumes "GetImplementation q = GetImplementation example_predictor"
    and "GetExtensions q = GetExtensions example_predictor"
    and "inferenceServiceConfig q = inferenceServiceConfig example_predictor"
    and "ObjectMeta i = ObjectMeta example_isvc" and "Spec i = Spec example_isvc"
  shows "Reconcile_synthesis q example_constants i =
           Inr (Reconcile_objectMeta q example_constants i
                  (desired_annotations q example_constants i),
                set_Custom i (Some \<lparr>PodTemplateSpec =
                      \<lparr>Template_ObjectMeta = zero_object_meta,
                       Template_Spec =
                         \<lparr>Volumes = [], InitContainers = [],
                          Containers = [example_container\<lparr>Ports := [port_entry 9081]\<rparr>],
                          ServiceAccountName = []\<rparr>\<rparr>\<rparr>))"
proof -
  have n: "Custom (Predictor (Spec i)) = None"
    by (simp add: assms example_isvc_def)
  have c: "Reconcile_container q i =
             Inr \<lparr>PodTemplateSpec =
                   \<lparr>Template_ObjectMeta = zero_object_meta,
                    Template_Spec =
                      \<lparr>Volumes = [], InitContainers = [], Containers = [example_container],
                       ServiceAccountName = []\<rparr>\<rparr>\<rparr>"
    by (simp add: Reconcile_container_None n assms example_predictor_def example_isvc_def
          example_container_def)
  have pp: "patch_ports example_constants True False example_container
              = example_container\<lparr>Ports := [port_entry 9081]\<rparr>"
    by (simp add: patch_ports_def addLoggerContainerPort_def example_container_def
          example_constants_def Atoi_def is_digit_def)
  have l: "Logger (Predictor (Spec i)) \<noteq> None" "Batcher (Predictor (Spec i)) = None"
    by (simp_all add: assms example_isvc_def)
  show ?thesis
    by (simp add: Reconcile_synthesis_eq c l pp
          Reconcile_ports_Cons [where c = example_container and rest = "[]"]
          custom_Containers_def set_custom_Containers_def)
qed

lemma example_annotations:
  assumes "GetImplementation q = GetImplementation example_predictor"
    and "ObjectMeta i = ObjectMeta example_isvc" and "Spec i = Spec example_isvc"
  shows "desired_annotations q example_constants i =
           (\<lambda>k. if k = ''internal.serving.kubeflow.org/logger-mode'' then Some ''request''
                else if k = ''internal.serving.kubeflow.org/logger'' then Some ''true''
                else if k = ''internal.serving.kubeflow.org/storage-initializer-sourceuri''
                  then Some ''gs://bucket/iris''
                else if k = ''owner'' then Some ''ml''
                else None)"
  by (rule ext)
     (simp add: Reconcile_annotations_snd assms example_predictor_def example_isvc_def
        example_constants_def logger_writes_eq batcher_writes_eq
        Filter_def Includes_def Let_def)

subsection \<open>The custom pod template\<close>

text \<open>
  C7. When the parent carries a custom pod template with at least one container and the
  implementation builds a container, the synthesis succeeds and changes in the parent only
  the first container of that template: it becomes the freshly built container after the
  port patches (which can change nothing but its port list, and change nothing when neither
  logger nor batcher is present or when the built container has ports). The other
  containers, the volumes, the init containers, the service account and the template's
  metadata are as before, and so is everything else in the parent.
\<close>

theorem Reconcile_custom_override_preserved:
  assumes "Custom (Predictor (Spec isvc)) = Some cu"
    and "custom_Containers cu = c0 # rest"
    and "built_container p isvc = Some fresh"
  shows "Reconcile_synthesis p K isvc =
           Inr (Reconcile_objectMeta p K isvc (desired_annotations p K isvc),
                set_Custom isvc
                  (Some (set_custom_Containers cu
                     (patch_ports K (Logger (Predictor (Spec isvc)) \<noteq> None)
                        (Batcher (Predictor (Spec isvc)) \<noteq> None) fresh # rest))))
       \<and> (\<forall>cs. Volumes (Template_Spec (PodTemplateSpec (set_custom_Containers cu cs)))
                  = Volumes (Template_Spec (PodTemplateSpec cu))
              \<and> InitContainers (Template_Spec (PodTemplateSpec (set_custom_Containers cu cs)))
                  = InitContainers (Template_Spec (PodTemplateSpec cu))
              \<and> ServiceAccountName (Template_Spec (PodTemplateSpec (set_custom_Containers cu cs)))
                  = ServiceAccountName (Template_Spec (PodTemplateSpec cu))
              \<and> Template_ObjectMeta (PodTemplateSpec (set_custom_Containers cu cs))
                  = Template_ObjectMeta (PodTemplateSpec cu)
              \<and> custom_Containers (set_custom_Containers cu cs) = cs)
       \<and> (\<forall>hl hb. (patch_ports K hl hb fresh)\<lparr>Ports := Ports fresh\<rparr> = fresh
              \<and> ((\<not> hl \<and> \<not> hb) \<or> Ports fresh \<noteq> [] \<longrightarrow> patch_ports K hl hb fresh = fresh))"
proof -
  from assms have c: "Reconcile_container p isvc = Inr (set_custom_Containers cu (fresh # rest))"
    by (simp add: Reconcile_container_Some)
  have syn: "Reconcile_synthesis p K isvc =
           Inr (Reconcile_objectMeta p K isvc (desired_annotations p K isvc),
                set_Custom isvc
                  (Some (set_custom_Containers cu
                     (patch_ports K (Logger (Predictor (Spec isvc)) \<noteq> None)
                        (Batcher (Predictor (Spec isvc)) \<noteq> None) fresh # rest))))"
    by (simp add: Reconcile_synthesis_eq c Reconcile_ports_Cons [where c = fresh and rest = rest])
  have frame: "\<forall>cs. Volumes (Template_Spec (PodTemplateSpec (set_custom_Containers cu cs)))
                  = Volumes (Template_Spec (PodTemplateSpec cu))
              \<and> InitContainers (Template_Spec (PodTemplateSpec (set_custom_Containers cu cs)))
                  = InitContainers (Template_Spec (PodTemplateSpec cu))
              \<and> ServiceAccountName (Template_Spec (PodTemplateSpec (set_custom_Containers cu cs)))
                  = ServiceAccountName (Template_Spec (PodTemplateSpec cu))
              \<and> Template_ObjectMeta (PodTemplateSpec (set_custom_Containers cu cs))
                  = Template_ObjectMeta (PodTemplateSpec cu)
              \<and> custom_Containers (set_custom_Containers cu cs) = cs"
    by (simp add: set_custom_Containers_def custom_Containers_def)
  have ports: "\<forall>hl hb. (patch_ports K hl hb fresh)\<lparr>Ports := Ports fresh\<rparr> = fresh
              \<and> ((\<not> hl \<and> \<not> hb) \<or> Ports fresh \<noteq> [] \<longrightarrow> patch_ports K hl hb fresh = fresh)"
    by (simp add: patch_ports_def addLoggerContainerPort_def addBatcherContainerPort_def Let_def)
  from syn frame ports show ?thesis by blast
qed

theorem Reconcile_custom_override_preserved_witness:
  "Custom (Predictor (Spec (set_Custom example_isvc (Some example_custom)))) = Some example_custom
   \<and> length (custom_Containers example_custom) = 2
   \<and> (case Reconcile_synthesis example_predictor example_constants
              (set_Custom example_isvc (Some example_custom)) of
        Inl e \<Rightarrow> False
      | Inr (objectMeta, isvc1) \<Rightarrow>
          map_option custom_Containers (Custom (Predictor (Spec isvc1)))
            = Some [example_container\<lparr>Ports := [port_entry 9081]\<rparr>,
                    \<lparr>ContainerName = ''proxy'', Image = ''proxy:1'', Args = [],
                     Ports = [port_entry 8443]\<rparr>]
        \<and> map_option (\<lambda>cu. Volumes (Template_Spec (PodTemplateSpec cu)))
              (Custom (Predictor (Spec isvc1)))
            = Some [\<lparr>VolumeName = ''cache''\<rparr>]
        \<and> map_option (\<lambda>cu. ServiceAccountName (Template_Spec (PodTemplateSpec cu)))
              (Custom (Predictor (Spec isvc1)))
            = Some ''models'')"
proof -
  have a: "Custom (Predictor (Spec (set_Custom example_isvc (Some example_custom))))
             = Some example_custom"
    by simp
  have b: "custom_Containers example_custom =
             \<lparr>ContainerName = ''user'', Image = ''user:1'', Args = [], Ports = []\<rparr>
             # [\<lparr>ContainerName = ''proxy'', Image = ''proxy:1'', Args = [],
                 Ports = [port_entry 8443]\<rparr>]"
    by (simp add: custom_Containers_def example_custom_def)
  have c: "built_container example_predictor (set_Custom example_isvc (Some example_custom))
             = Some example_container"
    by (simp add: example_predictor_def example_isvc_def example_container_def)
  have l: "Logger (Predictor (Spec example_isvc)) \<noteq> None"
          "Batcher (Predictor (Spec example_isvc)) = None"
    by (simp_all add: example_isvc_def)
  have pp: "patch_ports example_constants True False example_container
              = example_container\<lparr>Ports := [port_entry 9081]\<rparr>"
    by (simp add: patch_ports_def addLoggerContainerPort_def example_container_def
          example_constants_def Atoi_def is_digit_def)
  have v: "Volumes (Template_Spec (PodTemplateSpec example_custom)) = [\<lparr>VolumeName = ''cache''\<rparr>]"
          "ServiceAccountName (Template_Spec (PodTemplateSpec example_custom)) = ''models''"
    by (simp_all add: example_custom_def)
  from Reconcile_custom_override_preserved [OF a b c, of example_constants] a b l pp v
  show ?thesis by simp
qed

text \<open>
  C8. Whenever the synthesis phase completes, the parent's \<open>Custom\<close> is populated: created
  with a pod template of exactly one container (and nothing else set) if it was absent,
  still present if it was present. This holds for the parent that \<open>Reconcile\<close> leaves behind,
  whether it returns an error or nil. With \<open>Custom\<close> absent, the synthesis completes as soon
  as the implementation builds a container.
\<close>

theorem Reconcile_custom_populated:
  "(Reconcile_synthesis p K isvc = Inr (objectMeta, isvc1) \<longrightarrow>
      (\<exists>cu. Custom (Predictor (Spec isvc1)) = Some cu
         \<and> (Custom (Predictor (Spec isvc)) = None \<longrightarrow>
              (\<exists>c. cu = \<lparr>PodTemplateSpec =
                  \<lparr>Template_ObjectMeta = zero_object_meta,
                   Template_Spec =
                     \<lparr>Volumes = [], InitContainers = [], Containers = [c],
                      ServiceAccountName = []\<rparr>\<rparr>\<rparr>))))
   \<and> (Reconcile p K w isvc = Inr (w1, isvc2, err) \<longrightarrow>
      (\<exists>cu. Custom (Predictor (Spec isvc2)) = Some cu
         \<and> (Custom (Predictor (Spec isvc)) = None \<longrightarrow>
              (\<exists>c. cu = \<lparr>PodTemplateSpec =
                  \<lparr>Template_ObjectMeta = zero_object_meta,
                   Template_Spec =
                     \<lparr>Volumes = [], InitContainers = [], Containers = [c],
                      ServiceAccountName = []\<rparr>\<rparr>\<rparr>))))
   \<and> (Custom (Predictor (Spec isvc)) = None \<and> built_container p isvc \<noteq> None \<longrightarrow>
        (\<exists>objectMeta isvc1. Reconcile_synthesis p K isvc = Inr (objectMeta, isvc1)))"
proof -
  have syn: "\<exists>cu. Custom (Predictor (Spec s)) = Some cu
         \<and> (Custom (Predictor (Spec isvc)) = None \<longrightarrow>
              (\<exists>c. cu = \<lparr>PodTemplateSpec =
                  \<lparr>Template_ObjectMeta = zero_object_meta,
                   Template_Spec =
                     \<lparr>Volumes = [], InitContainers = [], Containers = [c],
                      ServiceAccountName = []\<rparr>\<rparr>\<rparr>))"
    if "Reconcile_synthesis p K isvc = Inr (m, s)" for m s
  proof -
    from Reconcile_synthesis_Inr [OF that] obtain cu fresh rest where
      cu: "Reconcile_container p isvc = Inr cu" "custom_Containers cu = fresh # rest"
        "s = set_Custom isvc
              (Some (set_custom_Containers cu
                 (patch_ports K (Logger (Predictor (Spec isvc)) \<noteq> None)
                    (Batcher (Predictor (Spec isvc)) \<noteq> None) fresh # rest)))"
      by blast
    show ?thesis
    proof (cases "Custom (Predictor (Spec isvc))")
      case None
      with Reconcile_container_nonempty [OF cu(1)] cu(2,3) show ?thesis
        by (auto simp: set_custom_Containers_def)
    next
      case (Some old)
      with cu(3) show ?thesis by simp
    qed
  qed
  have rec: "\<exists>cu. Custom (Predictor (Spec isvc2)) = Some cu
         \<and> (Custom (Predictor (Spec isvc)) = None \<longrightarrow>
              (\<exists>c. cu = \<lparr>PodTemplateSpec =
                  \<lparr>Template_ObjectMeta = zero_object_meta,
                   Template_Spec =
                     \<lparr>Volumes = [], InitContainers = [], Containers = [c],
                      ServiceAccountName = []\<rparr>\<rparr>\<rparr>))"
    if "Reconcile p K w isvc = Inr (w1, isvc2, err)"
  proof -
    from Reconcile_Inr [OF that] obtain m s where
      "Reconcile_synthesis p K isvc = Inr (m, s)" "Spec isvc2 = Spec s"
      by blast
    with syn [of m s] show ?thesis by simp
  qed
  have tot: "\<exists>objectMeta isvc1. Reconcile_synthesis p K isvc = Inr (objectMeta, isvc1)"
    if "Custom (Predictor (Spec isvc)) = None" "built_container p isvc \<noteq> None"
    using that
    by (auto simp: Reconcile_synthesis_eq Reconcile_container_None
          Reconcile_ports_Cons [where rest = "[]"] custom_Containers_def)
  from syn [of objectMeta isvc1] rec tot show ?thesis by blast
qed

theorem Reconcile_custom_populated_witness:
  "Custom (Predictor (Spec example_isvc)) = None
   \<and> (case Reconcile example_predictor example_constants 0 example_isvc of
        Inl e \<Rightarrow> False
      | Inr (w1, isvc2, err) \<Rightarrow>
          map_option custom_Containers (Custom (Predictor (Spec isvc2)))
            = Some [example_container\<lparr>Ports := [port_entry 9081]\<rparr>])
   \<and> (case Reconcile
             (example_predictor\<lparr>KsvcReconcile := (\<lambda>w r. (w, [], Some (Error ''conflict'')))\<rparr>)
             example_constants 0 example_isvc of
        Inl e \<Rightarrow> False
      | Inr (w1, isvc2, err) \<Rightarrow>
          err = Some (Error ''conflict'')
        \<and> map_option custom_Containers (Custom (Predictor (Spec isvc2)))
            = Some [example_container\<lparr>Ports := [port_entry 9081]\<rparr>])"
proof -
  let ?s = "set_Custom example_isvc (Some \<lparr>PodTemplateSpec =
                      \<lparr>Template_ObjectMeta = zero_object_meta,
                       Template_Spec =
                         \<lparr>Volumes = [], InitContainers = [],
                          Containers = [example_container\<lparr>Ports := [port_entry 9081]\<rparr>],
                          ServiceAccountName = []\<rparr>\<rparr>\<rparr>)"
  have n: "Custom (Predictor (Spec example_isvc)) = None"
    by (simp add: example_isvc_def)
  have s: "Reconcile_synthesis q example_constants example_isvc =
           Inr (Reconcile_objectMeta q example_constants example_isvc
                  (desired_annotations q example_constants example_isvc), ?s)"
    if "GetImplementation q = GetImplementation example_predictor"
       "GetExtensions q = GetExtensions example_predictor"
       "inferenceServiceConfig q = inferenceServiceConfig example_predictor"
    for q :: "(string option, nat, string, object_meta \<times> pod_spec, nat, string) predictor"
    using that by (intro example_synthesis) simp_all
  have e1: "Reconcile example_predictor example_constants 0 example_isvc
              = Inr (1, ?s\<lparr>Status := PropagateStatus (Status example_isvc)
                                      (PredictorComponent example_constants) ''Ready''\<rparr>, None)"
    by (simp add: Reconcile_def s) (simp add: example_predictor_def)
  have e2: "Reconcile (example_predictor\<lparr>KsvcReconcile := (\<lambda>w r. (w, [], Some (Error ''conflict'')))\<rparr>) example_constants 0 example_isvc
              = Inr (0, ?s, Some (Error ''conflict''))"
    by (simp add: Reconcile_def s) (simp add: example_predictor_def)
  from Reconcile_custom_populated
         [of example_predictor example_constants example_isvc _ _ 0 1
             "?s\<lparr>Status := PropagateStatus (Status example_isvc)
                               (PredictorComponent example_constants) ''Ready''\<rparr>" None]
       Reconcile_custom_populated
         [of "(example_predictor\<lparr>KsvcReconcile := (\<lambda>w r. (w, [], Some (Error ''conflict'')))\<rparr>)" example_constants example_isvc _ _ 0 0 ?s "Some (Error ''conflict'')"]
       n e1 e2
  show ?thesis
    by (simp add: custom_Containers_def)
qed

text \<open>
  C10. When the parent carries a custom pod template whose container list is empty,
  \<open>Reconcile\<close> ends in a panic and builds no template: the index is out of range when the
  implementation has built a container, and the nil pointer is dereferenced before that when
  it has returned nil.
\<close>

theorem Reconcile_empty_override_panics:
  assumes "Custom (Predictor (Spec isvc)) = Some cu" and "custom_Containers cu = []"
  shows "Reconcile p K w isvc =
           Inl (case built_container p isvc of
                  None \<Rightarrow> NilPointerDereference
                | Some c \<Rightarrow> IndexOutOfRange)
       \<and> Reconcile_synthesis p K isvc =
           Inl (case built_container p isvc of
                  None \<Rightarrow> NilPointerDereference
                | Some c \<Rightarrow> IndexOutOfRange)
       \<and> (built_container p isvc \<noteq> None \<longrightarrow> Reconcile p K w isvc = Inl IndexOutOfRange)"
  using assms
  by (auto simp: Reconcile_def Reconcile_synthesis_eq Reconcile_container_Some
        split: option.splits)

theorem Reconcile_empty_override_panics_witness:
  "Custom (Predictor (Spec (set_Custom example_isvc (Some (set_custom_Containers example_custom [])))))
     = Some (set_custom_Containers example_custom [])
   \<and> custom_Containers (set_custom_Containers example_custom []) = []
   \<and> Reconcile example_predictor example_constants 0
        (set_Custom example_isvc (Some (set_custom_Containers example_custom [])))
       = Inl IndexOutOfRange"
proof -
  have a: "Custom (Predictor (Spec (set_Custom example_isvc
              (Some (set_custom_Containers example_custom [])))))
             = Some (set_custom_Containers example_custom [])"
    by simp
  have b: "custom_Containers (set_custom_Containers example_custom []) = []"
    by simp
  have c: "built_container example_predictor
             (set_Custom example_isvc (Some (set_custom_Containers example_custom []))) \<noteq> None"
    by (simp add: example_predictor_def)
  from Reconcile_empty_override_panics [OF a b, of example_predictor example_constants 0] a b c
  show ?thesis by blast
qed

subsection \<open>The configuration artifact\<close>

text \<open>
  C9. Whatever the deletion timestamp of the model declaration, \<open>Reconcile\<close> of the
  \<open>ConfigMapReconciler\<close> makes the create call on the desired artifact: the cluster it leaves
  and the error it returns are those of \<open>Create\<close>. So it returns an error exactly when
  \<open>Create\<close> does, and returns that error.
\<close>

theorem ConfigMapReconciler_Reconcile_create:
  "ConfigMapReconciler_Reconcile c w desired trainedModel = client_Create c w desired
   \<and> ConfigMapReconciler_Reconcile c w desired (trainedModel\<lparr>DeletionTimestamp := d\<rparr>)
       = ConfigMapReconciler_Reconcile c w desired trainedModel
   \<and> (snd (ConfigMapReconciler_Reconcile c w desired trainedModel) = None)
       = (snd (client_Create c w desired) = None)"
proof -
  have "ConfigMapReconciler_Reconcile c w desired tm = client_Create c w desired" for tm
    by (simp add: ConfigMapReconciler_Reconcile_def split: prod.splits option.splits)
  then show ?thesis by simp
qed

theorem ConfigMapReconciler_Reconcile_create_witness:
  "ConfigMapReconciler_Reconcile example_client []
     \<lparr>ConfigMap_ObjectMeta = zero_object_meta\<lparr>Name := ''modelconfig-iris''\<rparr>, Data = Map.empty\<rparr>
     \<lparr>TrainedModel_ObjectMeta = zero_object_meta\<lparr>Name := ''iris''\<rparr>, DeletionTimestamp = None\<rparr>
     = ([''modelconfig-iris''], None)
   \<and> ConfigMapReconciler_Reconcile example_client [''modelconfig-iris'']
       \<lparr>ConfigMap_ObjectMeta = zero_object_meta\<lparr>Name := ''modelconfig-iris''\<rparr>, Data = Map.empty\<rparr>
       \<lparr>TrainedModel_ObjectMeta = zero_object_meta\<lparr>Name := ''iris''\<rparr>, DeletionTimestamp = None\<rparr>
     = ([''modelconfig-iris''], Some (Error ''already exists''))
   \<and> ConfigMapReconciler_Reconcile example_client []
       \<lparr>ConfigMap_ObjectMeta = zero_object_meta\<lparr>Name := ''modelconfig-iris''\<rparr>, Data = Map.empty\<rparr>
       \<lparr>TrainedModel_ObjectMeta = zero_object_meta\<lparr>Name := ''iris''\<rparr>,
        DeletionTimestamp = Some ''2020-10-01T00:00:00Z''\<rparr>
     = ([''modelconfig-iris''], None)"
  using ConfigMapReconciler_Reconcile_create [of example_client]
  by (simp add: example_client_def zero_object_meta_def)

subsection \<open>Annotations of the desired object\<close>

lemma Filter_disallowed:
  "Filter a (\<lambda>key. \<not> Includes dl key) k = (if k \<in> set dl then None else a k)"
  by (simp add: Filter_def Includes_def)

lemma addLoggerAnnotations_other:
  "k \<notin> (case lg of
          Some l \<Rightarrow>
            {LoggerInternalAnnotationKey K, LoggerModeInternalAnnotationKey K}
            \<union> (case URL l of Some u \<Rightarrow> {LoggerSinkUrlInternalAnnotationKey K} | None \<Rightarrow> {})
        | None \<Rightarrow> {})
   \<Longrightarrow> logger_writes K lg a k = a k"
  by (auto simp: logger_writes_eq Let_def split: option.splits)

lemma addLoggerAnnotations_written:
  "k \<in> (case lg of
          Some l \<Rightarrow>
            {LoggerInternalAnnotationKey K, LoggerModeInternalAnnotationKey K}
            \<union> (case URL l of Some u \<Rightarrow> {LoggerSinkUrlInternalAnnotationKey K} | None \<Rightarrow> {})
        | None \<Rightarrow> {})
   \<Longrightarrow> logger_writes K lg a k \<noteq> None"
  by (auto simp: logger_writes_eq Let_def split: option.splits)

lemma addLoggerAnnotations_dom:
  "a k \<noteq> None \<Longrightarrow> logger_writes K lg a k \<noteq> None"
  by (auto simp: logger_writes_eq Let_def split: option.splits)

lemma addBatcherAnnotations_other:
  "k \<notin> (case b of
          Some bt \<Rightarrow>
            {BatcherInternalAnnotationKey K}
            \<union> (case MaxBatchSize bt of
                 Some n \<Rightarrow> {BatcherMaxBatchSizeInternalAnnotationKey K} | None \<Rightarrow> {})
            \<union> (case MaxLatency bt of
                 Some n \<Rightarrow> {BatcherMaxLatencyInternalAnnotationKey K} | None \<Rightarrow> {})
            \<union> (case Timeout bt of
                 Some n \<Rightarrow> {BatcherTimeoutInternalAnnotationKey K} | None \<Rightarrow> {})
        | None \<Rightarrow> {})
   \<Longrightarrow> batcher_writes K b a k = a k"
  by (auto simp: batcher_writes_eq Let_def split: option.splits)

lemma addBatcherAnnotations_written:
  "k \<in> (case b of
          Some bt \<Rightarrow>
            {BatcherInternalAnnotationKey K}
            \<union> (case MaxBatchSize bt of
                 Some n \<Rightarrow> {BatcherMaxBatchSizeInternalAnnotationKey K} | None \<Rightarrow> {})
            \<union> (case MaxLatency bt of
                 Some n \<Rightarrow> {BatcherMaxLatencyInternalAnnotationKey K} | None \<Rightarrow> {})
            \<union> (case Timeout bt of
                 Some n \<Rightarrow> {BatcherTimeoutInternalAnnotationKey K} | None \<Rightarrow> {})
        | None \<Rightarrow> {})
   \<Longrightarrow> batcher_writes K b a k \<noteq> None"
  by (auto simp: batcher_writes_eq Let_def split: option.splits)

lemma addBatcherAnnotations_dom:
  "a k \<noteq> None \<Longrightarrow> batcher_writes K b a k \<noteq> None"
  by (auto simp: batcher_writes_eq Let_def split: option.splits)

lemma Reconcile_annotations_unwritten:
  assumes "k \<notin> written_keys p K isvc"
  shows "desired_annotations p K isvc k =
           (if k \<in> set (ServiceAnnotationDisallowedList K) then None
            else Annotations (ObjectMeta isvc) k)"
proof -
  from assms have
    s: "k \<notin> (case GetStorageUri (GetImplementation p (Predictor (Spec isvc))) of
               Some u \<Rightarrow> {StorageInitializerSourceUriInternalAnnotationKey K} | None \<Rightarrow> {})"
    and l: "k \<notin> (case Logger (Predictor (Spec isvc)) of
          Some l \<Rightarrow>
            {LoggerInternalAnnotationKey K, LoggerModeInternalAnnotationKey K}
            \<union> (case URL l of Some u \<Rightarrow> {LoggerSinkUrlInternalAnnotationKey K} | None \<Rightarrow> {})
        | None \<Rightarrow> {})"
    and b: "k \<notin> (case Batcher (Predictor (Spec isvc)) of
          Some bt \<Rightarrow>
            {BatcherInternalAnnotationKey K}
            \<union> (case MaxBatchSize bt of
                 Some n \<Rightarrow> {BatcherMaxBatchSizeInternalAnnotationKey K} | None \<Rightarrow> {})
            \<union> (case MaxLatency bt of
                 Some n \<Rightarrow> {BatcherMaxLatencyInternalAnnotationKey K} | None \<Rightarrow> {})
            \<union> (case Timeout bt of
                 Some n \<Rightarrow> {BatcherTimeoutInternalAnnotationKey K} | None \<Rightarrow> {})
        | None \<Rightarrow> {})"
    by (simp_all add: written_keys_def)
  from s show ?thesis
    by (simp add: Reconcile_annotations_snd addBatcherAnnotations_other [OF b]
          addLoggerAnnotations_other [OF l] Filter_disallowed split: option.splits)
qed

lemma Reconcile_annotations_written:
  assumes "k \<in> written_keys p K isvc"
  shows "desired_annotations p K isvc k \<noteq> None"
proof -
  from assms consider
    (s) "k \<in> (case GetStorageUri (GetImplementation p (Predictor (Spec isvc))) of
               Some u \<Rightarrow> {StorageInitializerSourceUriInternalAnnotationKey K} | None \<Rightarrow> {})"
    | (l) "k \<in> (case Logger (Predictor (Spec isvc)) of
          Some l \<Rightarrow>
            {LoggerInternalAnnotationKey K, LoggerModeInternalAnnotationKey K}
            \<union> (case URL l of Some u \<Rightarrow> {LoggerSinkUrlInternalAnnotationKey K} | None \<Rightarrow> {})
        | None \<Rightarrow> {})"
    | (b) "k \<in> (case Batcher (Predictor (Spec isvc)) of
          Some bt \<Rightarrow>
            {BatcherInternalAnnotationKey K}
            \<union> (case MaxBatchSize bt of
                 Some n \<Rightarrow> {BatcherMaxBatchSizeInternalAnnotationKey K} | None \<Rightarrow> {})
            \<union> (case MaxLatency bt of
                 Some n \<Rightarrow> {BatcherMaxLatencyInternalAnnotationKey K} | None \<Rightarrow> {})
            \<union> (case Timeout bt of
                 Some n \<Rightarrow> {BatcherTimeoutInternalAnnotationKey K} | None \<Rightarrow> {})
        | None \<Rightarrow> {})"
    by (auto simp: written_keys_def)
  then show ?thesis
  proof cases
    case s
    then show ?thesis
      unfolding Reconcile_annotations_snd
      by (intro addBatcherAnnotations_dom addLoggerAnnotations_dom)
         (auto split: option.splits)
  next
    case l
    then show ?thesis
      unfolding Reconcile_annotations_snd
      by (intro addBatcherAnnotations_dom addLoggerAnnotations_written)
  next
    case b
    then show ?thesis
      unfolding Reconcile_annotations_snd
      by (intro addBatcherAnnotations_written)
  qed
qed

text \<open>
  C3 (amended). Every key of the disallow-list is absent from the filtered copy of the
  parent's annotations, and every other key is in the copy with its value. In the
  annotation map of the desired object a key that lines 62 to 66 do not assign is as in
  the filtered copy: absent if it is in the disallow-list, retained with its value
  otherwise. A key that those lines assign is present, in the disallow-list or not.
\<close>

theorem Reconcile_annotations_filtered:
  "(\<forall>k. Filter (Annotations (ObjectMeta isvc))
            (\<lambda>key. \<not> Includes (ServiceAnnotationDisallowedList K) key) k
          = (if k \<in> set (ServiceAnnotationDisallowedList K) then None
             else Annotations (ObjectMeta isvc) k))
   \<and> (\<forall>objectMeta isvc1. Reconcile_synthesis p K isvc = Inr (objectMeta, isvc1) \<longrightarrow>
         (\<forall>k. k \<notin> written_keys p K isvc \<longrightarrow>
              Annotations objectMeta k
                = (if k \<in> set (ServiceAnnotationDisallowedList K) then None
                   else Annotations (ObjectMeta isvc) k))
       \<and> (\<forall>k. k \<in> written_keys p K isvc \<longrightarrow> Annotations objectMeta k \<noteq> None))"
proof -
  have "Annotations objectMeta = desired_annotations p K isvc"
    if "Reconcile_synthesis p K isvc = Inr (objectMeta, isvc1)" for objectMeta isvc1
    using Reconcile_synthesis_Inr [OF that] by (auto simp: Reconcile_objectMeta_def)
  then show ?thesis
    by (simp add: Filter_disallowed Reconcile_annotations_unwritten Reconcile_annotations_written)
qed

theorem Reconcile_annotations_filtered_witness:
  "(case Reconcile_synthesis example_predictor example_constants example_isvc of
      Inl e \<Rightarrow> False
    | Inr (objectMeta, isvc1) \<Rightarrow>
        ''autoscaling.knative.dev/minScale'' \<in> set (ServiceAnnotationDisallowedList example_constants)
      \<and> ''autoscaling.knative.dev/minScale'' \<notin> written_keys example_predictor example_constants example_isvc
      \<and> Annotations (ObjectMeta example_isvc) ''autoscaling.knative.dev/minScale'' = Some ''1''
      \<and> Annotations objectMeta ''autoscaling.knative.dev/minScale'' = None
      \<and> ''owner'' \<notin> set (ServiceAnnotationDisallowedList example_constants)
      \<and> ''owner'' \<notin> written_keys example_predictor example_constants example_isvc
      \<and> Annotations objectMeta ''owner'' = Some ''ml'')"
proof -
  have s: "Reconcile_synthesis example_predictor example_constants example_isvc =
           Inr (Reconcile_objectMeta example_predictor example_constants example_isvc
                  (desired_annotations example_predictor example_constants example_isvc),
                set_Custom example_isvc (Some \<lparr>PodTemplateSpec =
                      \<lparr>Template_ObjectMeta = zero_object_meta,
                       Template_Spec =
                         \<lparr>Volumes = [], InitContainers = [],
                          Containers = [example_container\<lparr>Ports := [port_entry 9081]\<rparr>],
                          ServiceAccountName = []\<rparr>\<rparr>\<rparr>))"
    by (rule example_synthesis) simp_all
  have w: "written_keys example_predictor example_constants example_isvc =
             {''internal.serving.kubeflow.org/storage-initializer-sourceuri'',
              ''internal.serving.kubeflow.org/logger'',
              ''internal.serving.kubeflow.org/logger-mode''}"
    by (auto simp: written_keys_def example_predictor_def example_isvc_def example_constants_def)
  have d: "ServiceAnnotationDisallowedList example_constants =
        [''autoscaling.knative.dev/minScale'', ''autoscaling.knative.dev/maxScale'',
         ''internal.serving.kubeflow.org/storage-initializer-sourceuri'',
         ''kubectl.kubernetes.io/last-applied-configuration'']"
    by (simp add: example_constants_def)
  have a: "Annotations (ObjectMeta example_isvc) ''autoscaling.knative.dev/minScale'' = Some ''1''"
          "Annotations (ObjectMeta example_isvc) ''owner'' = Some ''ml''"
    by (simp_all add: example_isvc_def)
  from Reconcile_annotations_filtered [of example_isvc example_constants example_predictor] s
  have "\<forall>k. k \<notin> written_keys example_predictor example_constants example_isvc \<longrightarrow>
          Annotations (Reconcile_objectMeta example_predictor example_constants example_isvc
                  (desired_annotations example_predictor example_constants example_isvc)) k
            = (if k \<in> set (ServiceAnnotationDisallowedList example_constants) then None
               else Annotations (ObjectMeta example_isvc) k)"
    by blast
  then have
    "''autoscaling.knative.dev/minScale'' \<notin> written_keys example_predictor example_constants example_isvc \<longrightarrow>
          Annotations (Reconcile_objectMeta example_predictor example_constants example_isvc
                  (desired_annotations example_predictor example_constants example_isvc))
             ''autoscaling.knative.dev/minScale''
            = (if ''autoscaling.knative.dev/minScale'' \<in> set (ServiceAnnotationDisallowedList example_constants)
               then None
               else Annotations (ObjectMeta example_isvc) ''autoscaling.knative.dev/minScale'')"
    "''owner'' \<notin> written_keys example_predictor example_constants example_isvc \<longrightarrow>
          Annotations (Reconcile_objectMeta example_predictor example_constants example_isvc
                  (desired_annotations example_predictor example_constants example_isvc))
             ''owner''
            = (if ''owner'' \<in> set (ServiceAnnotationDisallowedList example_constants)
               then None
               else Annotations (ObjectMeta example_isvc) ''owner'')"
    by blast+
  with s w d a show ?thesis by simp
qed

theorem Reconcile_annotations_filtered_counterexample:
  "(case Reconcile_synthesis example_predictor example_constants example_isvc of
      Inl e \<Rightarrow> False
    | Inr (objectMeta, isvc1) \<Rightarrow>
        ''internal.serving.kubeflow.org/storage-initializer-sourceuri''
          \<in> set (ServiceAnnotationDisallowedList example_constants)
      \<and> Annotations objectMeta ''internal.serving.kubeflow.org/storage-initializer-sourceuri''
          = Some ''gs://bucket/iris''
      \<and> ''internal.serving.kubeflow.org/logger''
          \<notin> set (ServiceAnnotationDisallowedList example_constants)
      \<and> Annotations (ObjectMeta example_isvc) ''internal.serving.kubeflow.org/logger''
          = Some ''false''
      \<and> Annotations objectMeta ''internal.serving.kubeflow.org/logger'' = Some ''true'')"
proof -
  have s: "Reconcile_synthesis example_predictor example_constants example_isvc =
           Inr (Reconcile_objectMeta example_predictor example_constants example_isvc
                  (desired_annotations example_predictor example_constants example_isvc),
                set_Custom example_isvc (Some \<lparr>PodTemplateSpec =
                      \<lparr>Template_ObjectMeta = zero_object_meta,
                       Template_Spec =
                         \<lparr>Volumes = [], InitContainers = [],
                          Containers = [example_container\<lparr>Ports := [port_entry 9081]\<rparr>],
                          ServiceAccountName = []\<rparr>\<rparr>\<rparr>))"
    by (rule example_synthesis) simp_all
  have a: "desired_annotations example_predictor example_constants example_isvc =
           (\<lambda>k. if k = ''internal.serving.kubeflow.org/logger-mode'' then Some ''request''
                else if k = ''internal.serving.kubeflow.org/logger'' then Some ''true''
                else if k = ''internal.serving.kubeflow.org/storage-initializer-sourceuri''
                  then Some ''gs://bucket/iris''
                else if k = ''owner'' then Some ''ml''
                else None)"
    by (rule example_annotations) simp_all
  have d: "ServiceAnnotationDisallowedList example_constants =
        [''autoscaling.knative.dev/minScale'', ''autoscaling.knative.dev/maxScale'',
         ''internal.serving.kubeflow.org/storage-initializer-sourceuri'',
         ''kubectl.kubernetes.io/last-applied-configuration'']"
    by (simp add: example_constants_def)
  have i: "Annotations (ObjectMeta example_isvc) ''internal.serving.kubeflow.org/logger''
          = Some ''false''"
    by (simp add: example_isvc_def)
  show ?thesis
    by (simp add: s a d i Reconcile_objectMeta_def)
qed

subsection \<open>The delegate and the status\<close>

text \<open>
  C2. After a completed synthesis the status is still the prior one. If
  \<open>SetControllerReference\<close> returns an error, or if it succeeds and the delegate's
  \<open>Reconcile\<close> returns an error, then \<open>Reconcile\<close> returns that error and the parent keeps its
  prior status. If both succeed, \<open>Reconcile\<close> returns nil and the status is the prior one
  with the predictor entry overwritten by the status the delegate returned, the other entries
  being as before. On every error return the status is the prior one.
\<close>

theorem Reconcile_status_isolation:
  assumes "Reconcile_synthesis p K isvc = Inr (objectMeta, isvc1)"
    and "Custom (Predictor (Spec isvc1)) = Some cu"
    and "r = NewKsvcReconciler p objectMeta (ComponentExtensionSpec (Predictor (Spec isvc1)))
               (Template_Spec (PodTemplateSpec cu))
               (Components (Status isvc1) (PredictorComponent K))"
  shows "Status isvc1 = Status isvc
       \<and> (\<forall>r1 err. SetControllerReference p isvc1 r = (r1, Some err) \<longrightarrow>
            Reconcile p K w isvc = Inr (w, isvc1, Some err))
       \<and> (\<forall>r1 w1 st err.
            SetControllerReference p isvc1 r = (r1, None)
            \<and> KsvcReconcile p w r1 = (w1, st, Some err) \<longrightarrow>
            Reconcile p K w isvc = Inr (w1, isvc1, Some err))
       \<and> (\<forall>r1 w1 st.
            SetControllerReference p isvc1 r = (r1, None)
            \<and> KsvcReconcile p w r1 = (w1, st, None) \<longrightarrow>
            Reconcile p K w isvc
              = Inr (w1,
                     isvc1\<lparr>Status := PropagateStatus (Status isvc) (PredictorComponent K) st\<rparr>,
                     None)
            \<and> Components (PropagateStatus (Status isvc) (PredictorComponent K) st)
                (PredictorComponent K) = Some st
            \<and> (\<forall>c. c \<noteq> PredictorComponent K \<longrightarrow>
                  Components (PropagateStatus (Status isvc) (PredictorComponent K) st) c
                    = Components (Status isvc) c))
       \<and> (\<forall>w1 isvc2 err. Reconcile p K w isvc = Inr (w1, isvc2, Some err) \<longrightarrow>
            Status isvc2 = Status isvc)"
proof -
  from Reconcile_synthesis_Inr [OF assms(1)] have st: "Status isvc1 = Status isvc"
    by auto
  have a: "Reconcile p K w isvc = Inr (w, isvc1, Some err)"
    if "SetControllerReference p isvc1 r = (r1, Some err)" for r1 err
    using that assms by (simp add: Reconcile_def Let_def)
  have b: "Reconcile p K w isvc = Inr (w1, isvc1, Some err)"
    if "SetControllerReference p isvc1 r = (r1, None)"
       "KsvcReconcile p w r1 = (w1, st, Some err)" for r1 w1 st err
    using that assms by (simp add: Reconcile_def Let_def)
  have c: "Reconcile p K w isvc
              = Inr (w1,
                     isvc1\<lparr>Status := PropagateStatus (Status isvc) (PredictorComponent K) st\<rparr>,
                     None)"
    if "SetControllerReference p isvc1 r = (r1, None)"
       "KsvcReconcile p w r1 = (w1, st, None)" for r1 w1 st
    using that assms st by (simp add: Reconcile_def Let_def)
  have d: "Components (PropagateStatus (Status isvc) (PredictorComponent K) st)
                (PredictorComponent K) = Some st
            \<and> (\<forall>c. c \<noteq> PredictorComponent K \<longrightarrow>
                  Components (PropagateStatus (Status isvc) (PredictorComponent K) st) c
                    = Components (Status isvc) c)" for st
    by (simp add: PropagateStatus_def)
  have e: "Status isvc2 = Status isvc"
    if "Reconcile p K w isvc = Inr (w1, isvc2, Some err)" for w1 isvc2 err
    using Reconcile_Inr [OF that] assms(1) st by auto
  from st a b c d e show ?thesis by blast
qed

theorem Reconcile_status_isolation_witness:
  "Reconcile (example_predictor\<lparr>SetControllerReference := (\<lambda>i r. (r, Some (Error ''already owned'')))\<rparr>) example_constants 0 (example_isvc\<lparr>Status := \<lparr>Components = [''predictor'' \<mapsto> ''NotReady'']\<rparr>\<rparr>)
     = Inr (0, set_Custom (example_isvc\<lparr>Status := \<lparr>Components = [''predictor'' \<mapsto> ''NotReady'']\<rparr>\<rparr>) (Some \<lparr>PodTemplateSpec =
                      \<lparr>Template_ObjectMeta = zero_object_meta,
                       Template_Spec =
                         \<lparr>Volumes = [], InitContainers = [],
                          Containers = [example_container\<lparr>Ports := [port_entry 9081]\<rparr>],
                          ServiceAccountName = []\<rparr>\<rparr>\<rparr>), Some (Error ''already owned''))
   \<and> Reconcile (example_predictor\<lparr>KsvcReconcile := (\<lambda>w r. (Suc w, [], Some (Error ''conflict'')))\<rparr>) example_constants 0 (example_isvc\<lparr>Status := \<lparr>Components = [''predictor'' \<mapsto> ''NotReady'']\<rparr>\<rparr>)
     = Inr (1, set_Custom (example_isvc\<lparr>Status := \<lparr>Components = [''predictor'' \<mapsto> ''NotReady'']\<rparr>\<rparr>) (Some \<lparr>PodTemplateSpec =
                      \<lparr>Template_ObjectMeta = zero_object_meta,
                       Template_Spec =
                         \<lparr>Volumes = [], InitContainers = [],
                          Containers = [example_container\<lparr>Ports := [port_entry 9081]\<rparr>],
                          ServiceAccountName = []\<rparr>\<rparr>\<rparr>), Some (Error ''conflict''))
   \<and> Components (Status (set_Custom (example_isvc\<lparr>Status := \<lparr>Components = [''predictor'' \<mapsto> ''NotReady'']\<rparr>\<rparr>) (Some \<lparr>PodTemplateSpec =
                      \<lparr>Template_ObjectMeta = zero_object_meta,
                       Template_Spec =
                         \<lparr>Volumes = [], InitContainers = [],
                          Containers = [example_container\<lparr>Ports := [port_entry 9081]\<rparr>],
                          ServiceAccountName = []\<rparr>\<rparr>\<rparr>))) ''predictor'' = Some ''NotReady''
   \<and> (case Reconcile example_predictor example_constants 0 (example_isvc\<lparr>Status := \<lparr>Components = [''predictor'' \<mapsto> ''NotReady'']\<rparr>\<rparr>) of
        Inl e \<Rightarrow> False
      | Inr (w1, isvc2, err) \<Rightarrow>
          w1 = 1 \<and> err = None \<and> Components (Status isvc2) ''predictor'' = Some ''Ready'')"
proof -
  have s: "Reconcile_synthesis q example_constants (example_isvc\<lparr>Status := \<lparr>Components = [''predictor'' \<mapsto> ''NotReady'']\<rparr>\<rparr>) =
           Inr (Reconcile_objectMeta q example_constants (example_isvc\<lparr>Status := \<lparr>Components = [''predictor'' \<mapsto> ''NotReady'']\<rparr>\<rparr>)
                  (desired_annotations q example_constants (example_isvc\<lparr>Status := \<lparr>Components = [''predictor'' \<mapsto> ''NotReady'']\<rparr>\<rparr>)),
                set_Custom (example_isvc\<lparr>Status := \<lparr>Components = [''predictor'' \<mapsto> ''NotReady'']\<rparr>\<rparr>) (Some \<lparr>PodTemplateSpec =
                      \<lparr>Template_ObjectMeta = zero_object_meta,
                       Template_Spec =
                         \<lparr>Volumes = [], InitContainers = [],
                          Containers = [example_container\<lparr>Ports := [port_entry 9081]\<rparr>],
                          ServiceAccountName = []\<rparr>\<rparr>\<rparr>))"
    if "GetImplementation q = GetImplementation example_predictor"
       "GetExtensions q = GetExtensions example_predictor"
       "inferenceServiceConfig q = inferenceServiceConfig example_predictor"
    for q :: "(string option, nat, string, object_meta \<times> pod_spec, nat, string) predictor"
    using that by (intro example_synthesis) simp_all
  have k: "PredictorComponent example_constants = ''predictor''"
    by (simp add: example_constants_def)
  have own: "Reconcile (example_predictor\<lparr>SetControllerReference := (\<lambda>i r. (r, Some (Error ''already owned'')))\<rparr>) example_constants 0 (example_isvc\<lparr>Status := \<lparr>Components = [''predictor'' \<mapsto> ''NotReady'']\<rparr>\<rparr>)
     = Inr (0, set_Custom (example_isvc\<lparr>Status := \<lparr>Components = [''predictor'' \<mapsto> ''NotReady'']\<rparr>\<rparr>) (Some \<lparr>PodTemplateSpec =
                      \<lparr>Template_ObjectMeta = zero_object_meta,
                       Template_Spec =
                         \<lparr>Volumes = [], InitContainers = [],
                          Containers = [example_container\<lparr>Ports := [port_entry 9081]\<rparr>],
                          ServiceAccountName = []\<rparr>\<rparr>\<rparr>), Some (Error ''already owned''))"
    using Reconcile_status_isolation
            [OF s [of "(example_predictor\<lparr>SetControllerReference := (\<lambda>i r. (r, Some (Error ''already owned'')))\<rparr>)"] set_Custom_simps(1) refl, of 0]
    by (simp add: example_predictor_def)
  have con: "Reconcile (example_predictor\<lparr>KsvcReconcile := (\<lambda>w r. (Suc w, [], Some (Error ''conflict'')))\<rparr>) example_constants 0 (example_isvc\<lparr>Status := \<lparr>Components = [''predictor'' \<mapsto> ''NotReady'']\<rparr>\<rparr>)
     = Inr (1, set_Custom (example_isvc\<lparr>Status := \<lparr>Components = [''predictor'' \<mapsto> ''NotReady'']\<rparr>\<rparr>) (Some \<lparr>PodTemplateSpec =
                      \<lparr>Template_ObjectMeta = zero_object_meta,
                       Template_Spec =
                         \<lparr>Volumes = [], InitContainers = [],
                          Containers = [example_container\<lparr>Ports := [port_entry 9081]\<rparr>],
                          ServiceAccountName = []\<rparr>\<rparr>\<rparr>), Some (Error ''conflict''))"
    using Reconcile_status_isolation
            [OF s [of "(example_predictor\<lparr>KsvcReconcile := (\<lambda>w r. (Suc w, [], Some (Error ''conflict'')))\<rparr>)"] set_Custom_simps(1) refl, of 0]
    by (simp add: example_predictor_def)
  have ok: "Reconcile example_predictor example_constants 0 (example_isvc\<lparr>Status := \<lparr>Components = [''predictor'' \<mapsto> ''NotReady'']\<rparr>\<rparr>)
     = Inr (1, (set_Custom (example_isvc\<lparr>Status := \<lparr>Components = [''predictor'' \<mapsto> ''NotReady'']\<rparr>\<rparr>) (Some \<lparr>PodTemplateSpec =
                      \<lparr>Template_ObjectMeta = zero_object_meta,
                       Template_Spec =
                         \<lparr>Volumes = [], InitContainers = [],
                          Containers = [example_container\<lparr>Ports := [port_entry 9081]\<rparr>],
                          ServiceAccountName = []\<rparr>\<rparr>\<rparr>))
                 \<lparr>Status := PropagateStatus (Status (example_isvc\<lparr>Status := \<lparr>Components = [''predictor'' \<mapsto> ''NotReady'']\<rparr>\<rparr>)) ''predictor'' ''Ready''\<rparr>, None)"
    using Reconcile_status_isolation
            [OF s [of example_predictor] set_Custom_simps(1) refl, of 0]
    by (simp add: example_predictor_def k)
  show ?thesis
    by (simp add: own con ok PropagateStatus_def)
qed

subsection \<open>Reconciling twice\<close>

lemma patch_ports_idem:
  "patch_ports K hl hb (patch_ports K hl hb c) = patch_ports K hl hb c"
  by (simp add: patch_ports_def addLoggerContainerPort_def addBatcherContainerPort_def Let_def)

lemma set_Custom_same:
  "Custom (Predictor (Spec i)) = c \<Longrightarrow> set_Custom i c = i"
  by (auto simp: set_Custom_def)

lemma Reconcile_annotations_cong:
  assumes "ObjectMeta i = ObjectMeta j"
    and "Logger (Predictor (Spec i)) = Logger (Predictor (Spec j))"
    and "Batcher (Predictor (Spec i)) = Batcher (Predictor (Spec j))"
    and "GetStorageUri (GetImplementation p (Predictor (Spec i)))
           = GetStorageUri (GetImplementation p (Predictor (Spec j)))"
  shows "Reconcile_annotations p K i = Reconcile_annotations p K j"
  unfolding Reconcile_annotations_def Let_def assms by (rule refl)

lemma Reconcile_objectMeta_cong:
  "ObjectMeta i = ObjectMeta j \<Longrightarrow> Reconcile_objectMeta p K i a = Reconcile_objectMeta p K j a"
  by (simp add: Reconcile_objectMeta_def)

lemma Reconcile_after_synthesis:
  assumes "Reconcile_synthesis p K isvc = Inr (objectMeta, isvc1)"
  shows "\<exists>w1 isvc2 err. Reconcile p K w isvc = Inr (w1, isvc2, err)
           \<and> Spec isvc2 = Spec isvc1 \<and> ObjectMeta isvc2 = ObjectMeta isvc1"
proof -
  from Reconcile_synthesis_Inr [OF assms] obtain cu where
    "Custom (Predictor (Spec isvc1)) = Some cu"
    by auto
  with assms show ?thesis
    by (auto simp: Reconcile_def Let_def split: prod.splits option.splits)
qed

text \<open>
  C1. Let a first \<open>Reconcile\<close> return (with an error or nil), and let the collaborators
  answer for the parent it leaves as they did before: the implementation has the same
  storage URI, and builds the same container as in the first pass or returns the container
  now installed in the parent (an implementation that reads the custom template). Then the
  synthesis of a second pass yields the object metadata of the first pass, annotation map
  included, and leaves the parent exactly as the first pass left it, so the pod
  specification and its first container are identical; the second \<open>Reconcile\<close> returns too.
\<close>

theorem Reconcile_idempotent:
  assumes "Reconcile p K w isvc = Inr (w1, isvc1, e1)"
    and "GetStorageUri (GetImplementation p (Predictor (Spec isvc1)))
           = GetStorageUri (GetImplementation p (Predictor (Spec isvc)))"
    and "built_container p isvc1 = built_container p isvc
         \<or> (\<exists>cu c rest.
               Custom (Predictor (Spec isvc1)) = Some cu \<and> custom_Containers cu = c # rest
             \<and> built_container p isvc1 = Some c)"
  shows "\<exists>objectMeta.
           Reconcile_synthesis p K isvc = Inr (objectMeta, isvc1\<lparr>Status := Status isvc\<rparr>)
         \<and> Reconcile_synthesis p K isvc1 = Inr (objectMeta, isvc1)
         \<and> (\<exists>w2 isvc2 e2. Reconcile p K w1 isvc1 = Inr (w2, isvc2, e2)
               \<and> Spec isvc2 = Spec isvc1 \<and> ObjectMeta isvc2 = ObjectMeta isvc1)"
proof -
  let ?hl = "Logger (Predictor (Spec isvc)) \<noteq> None"
  let ?hb = "Batcher (Predictor (Spec isvc)) \<noteq> None"
  let ?gc0 = "built_container p isvc"
  let ?gc1 = "built_container p isvc1"
  from Reconcile_Inr [OF assms(1)] obtain m s where
    syn: "Reconcile_synthesis p K isvc = Inr (m, s)"
    and sp: "Spec isvc1 = Spec s" and om: "ObjectMeta isvc1 = ObjectMeta s"
    by blast
  from Reconcile_synthesis_Inr [OF syn] obtain cu fresh rest where
    cc: "custom_Containers cu = fresh # rest"
    and gc0: "?gc0 = Some fresh"
    and m: "m = Reconcile_objectMeta p K isvc (desired_annotations p K isvc)"
    and s: "s = set_Custom isvc
              (Some (set_custom_Containers cu (patch_ports K ?hl ?hb fresh # rest)))"
    by blast
  let ?cu1 = "set_custom_Containers cu (patch_ports K ?hl ?hb fresh # rest)"
  have eq1: "isvc1\<lparr>Status := Status isvc\<rparr> = s"
    by (rule inference_service.equality) (simp_all add: sp om s)
  have c1: "Custom (Predictor (Spec isvc1)) = Some ?cu1"
    by (simp add: sp s)
  have om1: "ObjectMeta isvc1 = ObjectMeta isvc"
    by (simp add: om s)
  have fl: "Logger (Predictor (Spec isvc1)) = Logger (Predictor (Spec isvc))"
           "Batcher (Predictor (Spec isvc1)) = Batcher (Predictor (Spec isvc))"
    by (simp_all add: sp s)
  from assms(3) gc0 c1 have
    "?gc1 = Some fresh \<or> ?gc1 = Some (patch_ports K ?hl ?hb fresh)"
    by auto
  then obtain f2 where gc1: "?gc1 = Some f2"
    and pf: "patch_ports K ?hl ?hb f2 = patch_ports K ?hl ?hb fresh"
    by (auto simp: patch_ports_idem)
  have con: "Reconcile_container p isvc1 = Inr (set_custom_Containers ?cu1 (f2 # rest))"
    by (simp add: Reconcile_container_Some [OF c1] gc1)
  have ann: "Reconcile_annotations p K isvc1 = Reconcile_annotations p K isvc"
    by (rule Reconcile_annotations_cong) (simp_all add: om1 fl assms(2))
  have meta: "Reconcile_objectMeta p K isvc1 (desired_annotations p K isvc1) = m"
    by (simp add: desired_annotations_def ann m Reconcile_objectMeta_cong [OF om1])
  have same: "set_Custom isvc1 (Some ?cu1) = isvc1"
    by (rule set_Custom_same [OF c1])
  have "Reconcile_ports K ?hl ?hb (set_custom_Containers ?cu1 (f2 # rest))
          = Inr (set_custom_Containers (set_custom_Containers ?cu1 (f2 # rest))
                   (patch_ports K ?hl ?hb f2 # rest))"
    by (rule Reconcile_ports_Cons) simp
  also have "\<dots> = Inr ?cu1"
    by (simp only: pf set_custom_Containers_twice)
  finally have ports:
    "Reconcile_ports K ?hl ?hb (set_custom_Containers ?cu1 (f2 # rest)) = Inr ?cu1" .
  have syn1: "Reconcile_synthesis p K isvc1 = Inr (m, isvc1)"
    unfolding Reconcile_synthesis_eq con fl
    by (simp only: ports same meta sum.case)
  from Reconcile_after_synthesis [OF syn1, of w1] syn eq1 syn1 show ?thesis
    by auto
qed

theorem Reconcile_idempotent_witness:
  "\<exists>w1 isvc1 e1 objectMeta.
     Reconcile example_predictor example_constants 0 example_isvc = Inr (w1, isvc1, e1)
   \<and> e1 = None
   \<and> Reconcile_synthesis example_predictor example_constants example_isvc
       = Inr (objectMeta, isvc1\<lparr>Status := Status example_isvc\<rparr>)
   \<and> Reconcile_synthesis example_predictor example_constants isvc1 = Inr (objectMeta, isvc1)
   \<and> Name objectMeta = ''iris-predictor''
   \<and> map_option custom_Containers (Custom (Predictor (Spec isvc1)))
       = Some [example_container\<lparr>Ports := [port_entry 9081]\<rparr>]"
proof -
  let ?s = "set_Custom example_isvc (Some \<lparr>PodTemplateSpec =
                      \<lparr>Template_ObjectMeta = zero_object_meta,
                       Template_Spec =
                         \<lparr>Volumes = [], InitContainers = [],
                          Containers = [example_container\<lparr>Ports := [port_entry 9081]\<rparr>],
                          ServiceAccountName = []\<rparr>\<rparr>\<rparr>)"
  let ?i1 = "?s\<lparr>Status := PropagateStatus (Status example_isvc)
                            (PredictorComponent example_constants) ''Ready''\<rparr>"
  have s: "Reconcile_synthesis example_predictor example_constants example_isvc =
           Inr (Reconcile_objectMeta example_predictor example_constants example_isvc
                  (desired_annotations example_predictor example_constants example_isvc),
                ?s)"
    by (rule example_synthesis) simp_all
  have e1: "Reconcile example_predictor example_constants 0 example_isvc = Inr (1, ?i1, None)"
    by (simp add: Reconcile_def s) (simp add: example_predictor_def)
  have uri: "GetStorageUri (GetImplementation example_predictor (Predictor (Spec ?i1)))
           = GetStorageUri (GetImplementation example_predictor (Predictor (Spec example_isvc)))"
    by (simp add: example_predictor_def)
  have cont: "built_container example_predictor ?i1
              = built_container example_predictor example_isvc
         \<or> (\<exists>cu c rest. Custom (Predictor (Spec ?i1)) = Some cu
               \<and> custom_Containers cu = c # rest
               \<and> built_container example_predictor ?i1 = Some c)"
    by (simp add: example_predictor_def)
  from Reconcile_idempotent [OF e1 uri cont] obtain objectMeta where
    o: "Reconcile_synthesis example_predictor example_constants example_isvc
          = Inr (objectMeta, ?i1\<lparr>Status := Status example_isvc\<rparr>)"
       "Reconcile_synthesis example_predictor example_constants ?i1 = Inr (objectMeta, ?i1)"
    by blast
  from o(1) s have n: "Name objectMeta = ''iris-predictor''"
    by (simp add: Reconcile_objectMeta_def example_isvc_def example_constants_def)
  have c: "map_option custom_Containers (Custom (Predictor (Spec ?i1)))
       = Some [example_container\<lparr>Ports := [port_entry 9081]\<rparr>]"
    by (simp add: custom_Containers_def)
  from e1 o n c show ?thesis by blast
qed

end
